theory Spec2Isabelle
  imports Complex_Main
begin

section \<open>JavaScript numbers\<close>

text \<open>
  A JavaScript number is a finite value, one of the two infinities, or NaN.
  Finite values are modelled by exact reals: rounding to double (and to single
  precision on a store into a \<^verbatim>\<open>Float32Array\<close>) and the sign of zero are not
  modelled. A zero divisor is taken to be \<^verbatim>\<open>+0\<close>, which is what a difference
  \<^verbatim>\<open>x - x\<close> and \<^verbatim>\<open>Math.max\<close> of such differences produce.
\<close>

datatype jsnum = Finite real | PosInf | NegInf | NaN

fun js_neg :: "jsnum \<Rightarrow> jsnum" where
  "js_neg (Finite a) = Finite (- a)"
| "js_neg PosInf = NegInf"
| "js_neg NegInf = PosInf"
| "js_neg NaN = NaN"

fun js_add :: "jsnum \<Rightarrow> jsnum \<Rightarrow> jsnum" where
  "js_add NaN _ = NaN"
| "js_add _ NaN = NaN"
| "js_add (Finite a) (Finite b) = Finite (a + b)"
| "js_add (Finite a) PosInf = PosInf"
| "js_add (Finite a) NegInf = NegInf"
| "js_add PosInf NegInf = NaN"
| "js_add PosInf _ = PosInf"
| "js_add NegInf PosInf = NaN"
| "js_add NegInf _ = NegInf"

definition js_sub :: "jsnum \<Rightarrow> jsnum \<Rightarrow> jsnum" where
  "js_sub a b = js_add a (js_neg b)"

text \<open>The product of an infinity and a finite factor takes the sign of the
  product; an infinity times zero is NaN.\<close>

definition inf_times :: "jsnum \<Rightarrow> real \<Rightarrow> jsnum" where
  "inf_times i a = (if a > 0 then i else if a < 0 then js_neg i else NaN)"

fun js_mul :: "jsnum \<Rightarrow> jsnum \<Rightarrow> jsnum" where
  "js_mul NaN _ = NaN"
| "js_mul _ NaN = NaN"
| "js_mul (Finite a) (Finite b) = Finite (a * b)"
| "js_mul (Finite a) PosInf = inf_times PosInf a"
| "js_mul (Finite a) NegInf = inf_times NegInf a"
| "js_mul PosInf (Finite b) = inf_times PosInf b"
| "js_mul NegInf (Finite b) = inf_times NegInf b"
| "js_mul PosInf PosInf = PosInf"
| "js_mul PosInf NegInf = NegInf"
| "js_mul NegInf PosInf = NegInf"
| "js_mul NegInf NegInf = PosInf"

fun js_div :: "jsnum \<Rightarrow> jsnum \<Rightarrow> jsnum" where
  "js_div NaN _ = NaN"
| "js_div _ NaN = NaN"
| "js_div (Finite a) (Finite b) =
     (if b \<noteq> 0 then Finite (a / b)
      else if a > 0 then PosInf else if a < 0 then NegInf else NaN)"
| "js_div (Finite a) _ = Finite 0"
| "js_div PosInf (Finite b) = (if b \<ge> 0 then PosInf else NegInf)"
| "js_div NegInf (Finite b) = (if b \<ge> 0 then NegInf else PosInf)"
| "js_div _ _ = NaN"

text \<open>\<^verbatim>\<open>Math.min\<close> and \<^verbatim>\<open>Math.max\<close>: NaN as soon as one argument is NaN.\<close>

fun Math_min :: "jsnum \<Rightarrow> jsnum \<Rightarrow> jsnum" where
  "Math_min NaN _ = NaN"
| "Math_min _ NaN = NaN"
| "Math_min NegInf _ = NegInf"
| "Math_min _ NegInf = NegInf"
| "Math_min PosInf b = b"
| "Math_min a PosInf = a"
| "Math_min (Finite a) (Finite b) = Finite (min a b)"

fun Math_max :: "jsnum \<Rightarrow> jsnum \<Rightarrow> jsnum" where
  "Math_max NaN _ = NaN"
| "Math_max _ NaN = NaN"
| "Math_max PosInf _ = PosInf"
| "Math_max _ PosInf = PosInf"
| "Math_max NegInf b = b"
| "Math_max a NegInf = a"
| "Math_max (Finite a) (Finite b) = Finite (max a b)"

definition Math_max3 :: "jsnum \<Rightarrow> jsnum \<Rightarrow> jsnum \<Rightarrow> jsnum" where
  "Math_max3 a b c = Math_max (Math_max a b) c"

fun Math_sin :: "jsnum \<Rightarrow> jsnum" where
  "Math_sin (Finite a) = Finite (sin a)"
| "Math_sin _ = NaN"

fun Math_cos :: "jsnum \<Rightarrow> jsnum" where
  "Math_cos (Finite a) = Finite (cos a)"
| "Math_cos _ = NaN"

fun Math_acos :: "jsnum \<Rightarrow> jsnum" where
  "Math_acos (Finite a) = (if - 1 \<le> a \<and> a \<le> 1 then Finite (arccos a) else NaN)"
| "Math_acos _ = NaN"

section \<open>Typed arrays\<close>

text \<open>
  A \<^verbatim>\<open>Float32Array\<close> is a list of numbers of fixed length. A read at a key that
  is not an index of the array gives \<^verbatim>\<open>undefined\<close> (\<open>None\<close>), which becomes NaN
  when it is used as a number or stored into another typed array. A write at
  an index past the end is ignored, which is what \<open>xs[i := v]\<close> does.
\<close>

type_synonym float32array = "jsnum list"

definition f32_read :: "float32array \<Rightarrow> real \<Rightarrow> jsnum option" where
  "f32_read a k =
     (if of_int \<lfloor>k\<rfloor> = k \<and> 0 \<le> k \<and> k < real (length a)
      then Some (a ! nat \<lfloor>k\<rfloor>) else None)"

fun ToNumber :: "jsnum option \<Rightarrow> jsnum" where
  "ToNumber None = NaN"
| "ToNumber (Some v) = v"

definition new_Float32Array :: "nat \<Rightarrow> float32array" where
  "new_Float32Array n = replicate n (Finite 0)"

text \<open>The three stores of one loop iteration: \<^verbatim>\<open>a[i*3] = x; a[i*3+1] = y; a[i*3+2] = z\<close>.\<close>

definition write3 :: "float32array \<Rightarrow> nat \<Rightarrow> jsnum \<Rightarrow> jsnum \<Rightarrow> jsnum \<Rightarrow> float32array" where
  "write3 a i x y z = a[i * 3 := x, i * 3 + 1 := y, i * 3 + 2 := z]"

text \<open>
  \<^verbatim>\<open>Math.random()\<close>: the source of randomness is a parameter, \<open>rnd k\<close> being the
  value of the \<open>k\<close>-th call made by the function under study (each loop below
  makes exactly one call per iteration, so iteration \<open>i\<close> sees \<open>rnd i\<close>).
  \<open>rnd_fixed\<close> builds a concrete source from a finite prefix.
\<close>

definition rnd_fixed :: "real list \<Rightarrow> nat \<Rightarrow> real" where
  "rnd_fixed vs k = (if k < length vs then vs ! k else 0)"

section \<open>Per-frame rotation (ParticleHead and DiskFrame)\<close>

text \<open>
  The refs of \<^verbatim>\<open>ParticleHead\<close>: \<open>materialRef\<close> holds the \<^verbatim>\<open>uTime\<close> uniform of the
  mounted shader material, \<open>pointsRef\<close> the \<^verbatim>\<open>rotation.y\<close> of the mounted points
  node; \<open>None\<close> is a ref whose \<^verbatim>\<open>current\<close> is null (nothing mounted yet).
\<close>

record head_refs =
  materialRef :: "real option"
  pointsRef :: "real option"

definition ParticleHead_frame :: "real \<Rightarrow> real \<Rightarrow> head_refs \<Rightarrow> head_refs" where
  "ParticleHead_frame rotationSpeed elapsed refs =
     refs\<lparr> materialRef := (case materialRef refs of None \<Rightarrow> None | Some _ \<Rightarrow> Some elapsed),
           pointsRef := (case pointsRef refs of None \<Rightarrow> None
                         | Some y \<Rightarrow> Some (y + rotationSpeed * (5 / 1000))) \<rparr>"

text \<open>One call per frame; \<open>clock\<close> lists the elapsed time the host reports at each call.\<close>

definition ParticleHead_frames :: "real \<Rightarrow> real list \<Rightarrow> head_refs \<Rightarrow> head_refs" where
  "ParticleHead_frames rotationSpeed clock refs = fold (ParticleHead_frame rotationSpeed) clock refs"

definition DiskFrame_frame :: "real \<Rightarrow> real option \<Rightarrow> real option" where
  "DiskFrame_frame rotationSpeed groupRef =
     (case groupRef of None \<Rightarrow> None | Some y \<Rightarrow> Some (y + rotationSpeed * (5 / 1000)))"

definition DiskFrame_frames :: "real \<Rightarrow> nat \<Rightarrow> real option \<Rightarrow> real option" where
  "DiskFrame_frames rotationSpeed k groupRef = (DiskFrame_frame rotationSpeed ^^ k) groupRef"

section \<open>Material classification (GltfDisk)\<close>

datatype rgb = RGB real real real

datatype side = FrontSide | BackSide | DoubleSide

text \<open>The fields of the original material that the callback reads; \<open>None\<close> is a
  field that is absent (\<^verbatim>\<open>undefined\<close>).\<close>

record old_material =
  color :: "rgb option"
  emissive :: "rgb option"
  transparent :: bool
  opacity :: real
  side :: "side option"

text \<open>A colour given to a new material, by the CSS string it is built from.\<close>

datatype css_color = Css string

datatype new_material =
    MeshBasicMaterial css_color bool real "side option"
  | MeshStandardMaterial css_color real real css_color real bool real side

definition luminance :: "old_material \<Rightarrow> real" where
  "luminance oldMat =
     (case (case color oldMat of None \<Rightarrow> RGB 0 0 0 | Some c \<Rightarrow> c) of
        RGB r g b \<Rightarrow> r * (299 / 1000) + g * (587 / 1000) + b * (114 / 1000))"

definition hasEmissive :: "old_material \<Rightarrow> bool" where
  "hasEmissive oldMat =
     (case emissive oldMat of None \<Rightarrow> False
      | Some (RGB r g b) \<Rightarrow> r + g + b > 1 / 10)"

definition GltfDisk_material :: "string \<Rightarrow> old_material \<Rightarrow> new_material" where
  "GltfDisk_material glowColor oldMat =
     (if luminance oldMat > 5 / 10 \<or> hasEmissive oldMat
      then MeshBasicMaterial (Css glowColor)
             (transparent oldMat \<or> opacity oldMat < 1)
             (opacity oldMat)
             (side oldMat)
      else MeshStandardMaterial (Css ''#0a0a12'') (9 / 10) (2 / 10) (Css glowColor) (2 / 100)
             (transparent oldMat \<or> opacity oldMat < 1)
             (min (opacity oldMat) (95 / 100))
             (case side oldMat of None \<Rightarrow> FrontSide | Some s \<Rightarrow> s))"

text \<open>The role and the settings of a replacement material.\<close>

fun is_glow :: "new_material \<Rightarrow> bool" where
  "is_glow (MeshBasicMaterial _ _ _ _) = True"
| "is_glow (MeshStandardMaterial _ _ _ _ _ _ _ _) = False"

fun new_transparent :: "new_material \<Rightarrow> bool" where
  "new_transparent (MeshBasicMaterial _ t _ _) = t"
| "new_transparent (MeshStandardMaterial _ _ _ _ _ t _ _) = t"

fun new_opacity :: "new_material \<Rightarrow> real" where
  "new_opacity (MeshBasicMaterial _ _ p _) = p"
| "new_opacity (MeshStandardMaterial _ _ _ _ _ _ p _) = p"

fun new_side :: "new_material \<Rightarrow> side option" where
  "new_side (MeshBasicMaterial _ _ _ s) = s"
| "new_side (MeshStandardMaterial _ _ _ _ _ _ _ s) = Some s"

section \<open>Mesh sampler (ParticleHead)\<close>

subsection \<open>generateFallbackSphere\<close>

text \<open>\<open>count\<close> is a number of particles, a natural number.\<close>

definition fallback_point :: "nat \<Rightarrow> (nat \<Rightarrow> real) \<Rightarrow> nat \<Rightarrow> jsnum \<times> jsnum \<times> jsnum" where
  "fallback_point count rnd i =
     (let phi = Math_acos (Finite (1 - (2 * (real i + 5 / 10)) / real count));
          theta = Finite (pi * (1 + sqrt 5) * real i);
          r = Finite (12 / 10 + (rnd i - 5 / 10) * (3 / 10))
      in (js_mul (js_mul r (Math_sin phi)) (Math_cos theta),
          js_mul (js_mul r (Math_sin phi)) (Math_sin theta),
          js_mul r (Math_cos phi)))"

definition generateFallbackSphere :: "nat \<Rightarrow> (nat \<Rightarrow> real) \<Rightarrow> float32array" where
  "generateFallbackSphere count rnd =
     fold (\<lambda>i positions.
             case fallback_point count rnd i of (x, y, z) \<Rightarrow> write3 positions i x y z)
          [0..<count] (new_Float32Array (count * 3))"

subsection \<open>samplePositions\<close>

text \<open>
  \<open>maxCount\<close> is a number of particles, a natural number. The index arithmetic of
  the loop is on finite numbers (the loop body runs only when \<open>maxCount > 0\<close>, so
  \<open>step\<close> is a finite quotient), hence on reals. \<open>idx\<close> is a real: it is not an
  integer when \<open>totalVertices - 1\<close> wins the \<^verbatim>\<open>Math.min\<close> and the array length is
  not a multiple of three.
\<close>

definition sample_idx :: "real \<Rightarrow> real \<Rightarrow> (nat \<Rightarrow> real) \<Rightarrow> nat \<Rightarrow> real" where
  "sample_idx totalVertices step rnd i =
     min (of_int \<lfloor>real i * step + rnd i * step\<rfloor>) (totalVertices - 1)"

definition samplePositions :: "float32array \<Rightarrow> nat \<Rightarrow> (nat \<Rightarrow> real) \<Rightarrow> float32array" where
  "samplePositions allPositions maxCount rnd =
     (let totalVertices = real (length allPositions) / 3 in
      if totalVertices \<le> real maxCount then allPositions
      else
        let step = totalVertices / real maxCount in
        fold (\<lambda>i sampled.
                let idx = sample_idx totalVertices step rnd i in
                write3 sampled i
                  (ToNumber (f32_read allPositions (idx * 3)))
                  (ToNumber (f32_read allPositions (idx * 3 + 1)))
                  (ToNumber (f32_read allPositions (idx * 3 + 2))))
             [0..<maxCount] (new_Float32Array (maxCount * 3)))"




subsection \<open>samplePositions, with the rounding of its arithmetic\<close>

text \<open>
  The definitions above take the arithmetic of \<open>samplePositions\<close> as exact. The
  source computes in double precision, and the index is the floor of a
  computed sum, so a rounding error of one unit in the last place can move it
  by one. Here every arithmetic result of the function is passed through
  \<open>fl\<close>, the rounding of a real result to the number the machine stores
  (\<^verbatim>\<open>Math.floor\<close> and \<^verbatim>\<open>Math.min\<close> are exact and carry none). \<open>fl\<close> is a
  parameter: what is proved below holds for every rounding with the stated
  properties, which round-to-nearest has. \<open>no_rounding\<close> is exact arithmetic.
\<close>

definition sample_idx_rounded ::
    "(real \<Rightarrow> real) \<Rightarrow> real \<Rightarrow> real \<Rightarrow> (nat \<Rightarrow> real) \<Rightarrow> nat \<Rightarrow> real" where
  "sample_idx_rounded fl totalVertices step rnd i =
     min (of_int \<lfloor>fl (fl (real i * step) + fl (rnd i * step))\<rfloor>) (fl (totalVertices - 1))"

definition samplePositions_rounded ::
    "(real \<Rightarrow> real) \<Rightarrow> float32array \<Rightarrow> nat \<Rightarrow> (nat \<Rightarrow> real) \<Rightarrow> float32array" where
  "samplePositions_rounded fl allPositions maxCount rnd =
     (let totalVertices = fl (real (length allPositions) / 3) in
      if totalVertices \<le> real maxCount then allPositions
      else
        let step = fl (totalVertices / real maxCount) in
        fold (\<lambda>i sampled.
                let idx = sample_idx_rounded fl totalVertices step rnd i in
                write3 sampled i
                  (ToNumber (f32_read allPositions (fl (idx * 3))))
                  (ToNumber (f32_read allPositions (fl (fl (idx * 3) + 1))))
                  (ToNumber (f32_read allPositions (fl (fl (idx * 3) + 2)))))
             [0..<maxCount] (new_Float32Array (maxCount * 3)))"

definition no_rounding :: "real \<Rightarrow> real" where
  "no_rounding x = x"

subsection \<open>normalizePositions\<close>

text \<open>The six variables of the bounding-box loop.\<close>

record bbox =
  minX :: jsnum
  minY :: jsnum
  minZ :: jsnum
  maxX :: jsnum
  maxY :: jsnum
  maxZ :: jsnum

definition bbox_init :: bbox where
  "bbox_init = \<lparr> minX = PosInf, minY = PosInf, minZ = PosInf,
                 maxX = NegInf, maxY = NegInf, maxZ = NegInf \<rparr>"

definition bbox_step :: "float32array \<Rightarrow> nat \<Rightarrow> bbox \<Rightarrow> bbox" where
  "bbox_step positions i bb =
     (let x = ToNumber (f32_read positions (real (i * 3)));
          y = ToNumber (f32_read positions (real (i * 3 + 1)));
          z = ToNumber (f32_read positions (real (i * 3 + 2)))
      in \<lparr> minX = Math_min (minX bb) x, minY = Math_min (minY bb) y,
            minZ = Math_min (minZ bb) z,
            maxX = Math_max (maxX bb) x, maxY = Math_max (maxY bb) y,
            maxZ = Math_max (maxZ bb) z \<rparr>)"

text \<open>\<^verbatim>\<open>for (let i = 0; i < count; i++)\<close> with \<open>count = length / 3\<close>, which is not an
  integer when the length is not a multiple of three: the loop runs for
  \<open>i = 0, \<dots>, \<lceil>count\<rceil> - 1\<close>.\<close>

definition point_loop :: "float32array \<Rightarrow> nat list" where
  "point_loop positions = [0..<nat \<lceil>real (length positions) / 3\<rceil>]"

definition bounding_box :: "float32array \<Rightarrow> bbox" where
  "bounding_box positions = fold (bbox_step positions) (point_loop positions) bbox_init"

definition box_center :: "jsnum \<Rightarrow> jsnum \<Rightarrow> jsnum" where
  "box_center lo hi = js_div (js_add lo hi) (Finite 2)"

definition maxExtent :: "bbox \<Rightarrow> jsnum" where
  "maxExtent bb =
     Math_max3 (js_sub (maxX bb) (minX bb)) (js_sub (maxY bb) (minY bb))
               (js_sub (maxZ bb) (minZ bb))"

definition normalizePositions :: "float32array \<Rightarrow> real \<Rightarrow> float32array" where
  "normalizePositions positions targetRadius =
     (let bb = bounding_box positions;
          cx = box_center (minX bb) (maxX bb);
          cy = box_center (minY bb) (maxY bb);
          cz = box_center (minZ bb) (maxZ bb);
          scale = js_div (Finite (targetRadius * 2)) (maxExtent bb)
      in fold (\<lambda>i result.
                 write3 result i
                   (js_mul (js_sub (ToNumber (f32_read positions (real (i * 3)))) cx) scale)
                   (js_mul (js_sub (ToNumber (f32_read positions (real (i * 3 + 1)))) cy) scale)
                   (js_mul (js_sub (ToNumber (f32_read positions (real (i * 3 + 2)))) cz) scale))
              (point_loop positions) (new_Float32Array (length positions)))"

subsection \<open>extractPositions\<close>

text \<open>
  What a loader hands over. A \<^verbatim>\<open>BufferGeometry\<close> carries the array of its position
  attribute, if it has one. A scene graph is a tree of nodes; a node that is a
  \<^verbatim>\<open>Mesh\<close> carries its geometry (if any), the vertices of the geometry's
  position attribute (if any), and the map \<^verbatim>\<open>applyMatrix4(matrixWorld)\<close> of its
  world transform, which the 3D library computes.
\<close>

type_synonym vec3 = "jsnum \<times> jsnum \<times> jsnum"

record mesh =
  geometry :: "vec3 list option option"
  matrixWorld :: "vec3 \<Rightarrow> vec3"

datatype object3d = Object3D "mesh option" "object3d list"

datatype source = BufferGeometry "float32array option" | Scene object3d

fun traverse :: "object3d \<Rightarrow> object3d list" where
  "traverse (Object3D m cs) = Object3D m cs # concat (map traverse cs)"

fun pushed :: "object3d \<Rightarrow> jsnum list" where
  "pushed (Object3D None _) = []"
| "pushed (Object3D (Some m) _) =
     (case geometry m of
        None \<Rightarrow> []
      | Some None \<Rightarrow> []
      | Some (Some posAttr) \<Rightarrow>
          concat (map (\<lambda>v. case matrixWorld m v of (x, y, z) \<Rightarrow> [x, y, z]) posAttr))"

fun extractPositions :: "source \<Rightarrow> float32array option" where
  "extractPositions (BufferGeometry position) = position"
| "extractPositions (Scene object) =
     (let positions = concat (map pushed (traverse object))
      in if length positions > 0 then Some positions else None)"

subsection \<open>useModelPositions\<close>

text \<open>\<^verbatim>\<open>modelPath.split(".").pop()?.toLowerCase()\<close>, on ASCII strings.\<close>

fun split_dot :: "string \<Rightarrow> string list" where
  "split_dot [] = [[]]"
| "split_dot (c # cs) =
     (if c = CHR ''.'' then [] # split_dot cs
      else (case split_dot cs of [] \<Rightarrow> [[c]] | s # ss \<Rightarrow> (c # s) # ss))"

definition lower_char :: "char \<Rightarrow> char" where
  "lower_char c =
     (let n = (of_char c :: nat) in if 65 \<le> n \<and> n \<le> 90 then char_of (n + 32) else c)"

definition toLowerCase :: "string \<Rightarrow> string" where
  "toLowerCase s = map lower_char s"

definition model_ext :: "string \<Rightarrow> string" where
  "model_ext modelPath = toLowerCase (last (split_dot modelPath))"

datatype loader = OBJLoader | PLYLoader | GLTFLoader

definition loader_for :: "string \<Rightarrow> loader option" where
  "loader_for ext =
     (if ext = ''obj'' then Some OBJLoader
      else if ext = ''ply'' then Some PLYLoader
      else if ext = ''glb'' \<or> ext = ''gltf'' then Some GLTFLoader
      else None)"

datatype warning = Unsupported_format string | No_vertex_data | Failed_to_load_model

text \<open>
  The state of the hook: the \<^verbatim>\<open>positions\<close> state variable (\<open>None\<close> is null, the
  renderer draws nothing), the warnings written to the console, and the loads
  dispatched (loader and URL).
\<close>

record hook_state =
  positions_state :: "float32array option"
  warnings :: "warning list"
  loads :: "(loader \<times> string) list"

definition hook_init :: hook_state where
  "hook_init = \<lparr> positions_state = None, warnings = [], loads = [] \<rparr>"

definition use_fallback :: "warning list \<Rightarrow> nat \<Rightarrow> (nat \<Rightarrow> real) \<Rightarrow> hook_state \<Rightarrow> hook_state" where
  "use_fallback ws particleCount rnd st =
     st\<lparr> warnings := warnings st @ ws,
         positions_state := Some (generateFallbackSphere particleCount rnd) \<rparr>"

text \<open>The body of the effect, up to and including the call of \<^verbatim>\<open>loader.load\<close>.
  An absent and an empty \<open>modelPath\<close> are both falsy.\<close>

definition useModelPositions_effect ::
    "string option \<Rightarrow> nat \<Rightarrow> (nat \<Rightarrow> real) \<Rightarrow> hook_state" where
  "useModelPositions_effect modelPath particleCount rnd =
     (case modelPath of
        None \<Rightarrow> use_fallback [] particleCount rnd hook_init
      | Some path \<Rightarrow>
          if path = [] then use_fallback [] particleCount rnd hook_init
          else
            (case loader_for (model_ext path) of
               None \<Rightarrow> use_fallback [Unsupported_format (model_ext path)] particleCount rnd hook_init
             | Some l \<Rightarrow> hook_init\<lparr> loads := [(l, ''/models/'' @ path)] \<rparr>))"

text \<open>The two callbacks given to the loader. \<open>result\<close> is what \<^verbatim>\<open>extractPositions\<close>
  is applied to: the loaded geometry or group, or the \<^verbatim>\<open>scene\<close> of a loaded glTF.\<close>

definition onLoad :: "string \<Rightarrow> nat \<Rightarrow> (nat \<Rightarrow> real) \<Rightarrow> source \<Rightarrow> hook_state \<Rightarrow> hook_state" where
  "onLoad ext particleCount rnd result st =
     (let raw = (if ext = ''ply'' then extractPositions result
                 else if ext = ''glb'' \<or> ext = ''gltf'' then extractPositions result
                 else extractPositions result)
      in case raw of
           None \<Rightarrow> use_fallback [No_vertex_data] particleCount rnd st
         | Some a \<Rightarrow>
             if length a > 0
             then st\<lparr> positions_state :=
                        Some (normalizePositions (samplePositions a particleCount rnd) (13 / 10)) \<rparr>
             else use_fallback [No_vertex_data] particleCount rnd st)"

definition onError :: "nat \<Rightarrow> (nat \<Rightarrow> real) \<Rightarrow> hook_state \<Rightarrow> hook_state" where
  "onError particleCount rnd st = use_fallback [Failed_to_load_model] particleCount rnd st"

text \<open>How a dispatched load ends: the loader calls one of the two callbacks.\<close>

datatype load_event = Loaded source | Failed

definition useModelPositions ::
    "string option \<Rightarrow> nat \<Rightarrow> (nat \<Rightarrow> real) \<Rightarrow> load_event \<Rightarrow> hook_state" where
  "useModelPositions modelPath particleCount rnd ev =
     (let st = useModelPositions_effect modelPath particleCount rnd in
      if loads st = [] then st
      else (case ev of
              Loaded result \<Rightarrow>
                onLoad (model_ext (case modelPath of None \<Rightarrow> [] | Some path \<Rightarrow> path))
                       particleCount rnd result st
            | Failed \<Rightarrow> onError particleCount rnd st))"

section \<open>Point sets\<close>

text \<open>The \<open>i\<close>-th point of a flat array of coordinates, and the flat array of
  the points \<open>f 0, \<dots>, f (n - 1)\<close>.\<close>

definition point_at :: "'a list \<Rightarrow> nat \<Rightarrow> 'a \<times> 'a \<times> 'a" where
  "point_at a i = (a ! (i * 3), a ! (i * 3 + 1), a ! (i * 3 + 2))"

definition triples :: "(nat \<Rightarrow> 'a \<times> 'a \<times> 'a) \<Rightarrow> nat \<Rightarrow> 'a list" where
  "triples f n = concat (map (\<lambda>i. case f i of (x, y, z) \<Rightarrow> [x, y, z]) [0..<n])"

text \<open>The Euclidean distance of a point from the origin.\<close>

definition radius :: "real \<times> real \<times> real \<Rightarrow> real" where
  "radius p = (case p of (x, y, z) \<Rightarrow> sqrt (x\<^sup>2 + y\<^sup>2 + z\<^sup>2))"

section \<open>The bounding box of a point set, as the specification words it\<close>

text \<open>
  For a flat list of finite coordinates: the values on axis \<open>c\<close> (0, 1, 2 for
  x, y, z), the lower and upper face of the axis-aligned bounding box on that
  axis, its span, the largest of the three spans, and the box centre. These
  follow the specification; \<open>normalize_spec\<close> is the specification's
  ``translate the box centre to the origin, then scale by
  \<open>(2 * targetRadius) / maxExtent\<close>''. They are compared with the code below.
\<close>

definition axis :: "real list \<Rightarrow> nat \<Rightarrow> real list" where
  "axis ps c = map (\<lambda>i. ps ! (i * 3 + c)) [0..<length ps div 3]"

definition axis_lo :: "real list \<Rightarrow> nat \<Rightarrow> real" where
  "axis_lo ps c = Min (set (axis ps c))"

definition axis_hi :: "real list \<Rightarrow> nat \<Rightarrow> real" where
  "axis_hi ps c = Max (set (axis ps c))"

definition axis_span :: "real list \<Rightarrow> nat \<Rightarrow> real" where
  "axis_span ps c = axis_hi ps c - axis_lo ps c"

definition maxSpan :: "real list \<Rightarrow> real" where
  "maxSpan ps = max (max (axis_span ps 0) (axis_span ps 1)) (axis_span ps 2)"

definition centre :: "real list \<Rightarrow> nat \<Rightarrow> real" where
  "centre ps c = (axis_lo ps c + axis_hi ps c) / 2"

definition normalize_spec :: "real list \<Rightarrow> real \<Rightarrow> real list" where
  "normalize_spec ps targetRadius =
     triples (\<lambda>i. ((ps ! (i * 3) - centre ps 0) * (2 * targetRadius / maxSpan ps),
                   (ps ! (i * 3 + 1) - centre ps 1) * (2 * targetRadius / maxSpan ps),
                   (ps ! (i * 3 + 2) - centre ps 2) * (2 * targetRadius / maxSpan ps)))
       (length ps div 3)"

section \<open>Rotation accumulates per call\<close>

lemma ParticleHead_frames_points:
  "pointsRef refs = Some y \<Longrightarrow>
   pointsRef (ParticleHead_frames rotationSpeed clock refs)
     = Some (y + real (length clock) * (rotationSpeed * (5 / 1000)))"
  unfolding ParticleHead_frames_def
proof (induction clock arbitrary: refs y)
  case Nil
  then show ?case by simp
next
  case (Cons t ts)
  have "pointsRef (ParticleHead_frame rotationSpeed t refs) = Some (y + rotationSpeed * (5 / 1000))"
    using Cons.prems by (simp add: ParticleHead_frame_def)
  from Cons.IH[OF this] show ?case by (simp add: algebra_simps)
qed

lemma DiskFrame_frames_group:
  "DiskFrame_frames rotationSpeed k (Some y)
     = Some (y + real k * (rotationSpeed * (5 / 1000)))"
proof (induction k)
  case 0
  show ?case by (simp add: DiskFrame_frames_def)
next
  case (Suc k)
  have "DiskFrame_frames rotationSpeed (Suc k) (Some y)
          = DiskFrame_frame rotationSpeed (DiskFrame_frames rotationSpeed k (Some y))"
    by (simp add: DiskFrame_frames_def)
  also have "\<dots> = Some (y + real k * (rotationSpeed * (5 / 1000)) + rotationSpeed * (5 / 1000))"
    by (simp only: Suc.IH DiskFrame_frame_def option.case)
  finally show ?case by (simp add: algebra_simps)
qed

text \<open>
  C8. For the head particle cloud and for the disk frame group, each per-frame
  call adds exactly \<open>rotationSpeed * 0.005\<close> to the Y rotation of the mounted
  node, whatever elapsed time the clock reports; after \<open>k\<close> calls the rotation
  is the initial one plus \<open>k * rotationSpeed * 0.005\<close>.
\<close>

theorem C8_rotation_accumulates:
  assumes "pointsRef refs = Some y"
  shows "pointsRef (ParticleHead_frame rotationSpeed elapsed refs)
           = Some (y + rotationSpeed * (5 / 1000))
       \<and> pointsRef (ParticleHead_frames rotationSpeed clock refs)
           = Some (y + real (length clock) * rotationSpeed * (5 / 1000))
       \<and> DiskFrame_frame rotationSpeed (Some g) = Some (g + rotationSpeed * (5 / 1000))
       \<and> DiskFrame_frames rotationSpeed k (Some g)
           = Some (g + real k * rotationSpeed * (5 / 1000))"
proof -
  have a: "pointsRef (ParticleHead_frame rotationSpeed elapsed refs)
             = Some (y + rotationSpeed * (5 / 1000))"
    using assms by (simp add: ParticleHead_frame_def)
  have b: "pointsRef (ParticleHead_frames rotationSpeed clock refs)
             = Some (y + real (length clock) * rotationSpeed * (5 / 1000))"
    using ParticleHead_frames_points[OF assms, of rotationSpeed clock] by (simp add: algebra_simps)
  have c: "DiskFrame_frame rotationSpeed (Some g) = Some (g + rotationSpeed * (5 / 1000))"
    by (simp add: DiskFrame_frame_def)
  have d: "DiskFrame_frames rotationSpeed k (Some g)
             = Some (g + real k * rotationSpeed * (5 / 1000))"
    using DiskFrame_frames_group[of rotationSpeed k g] by (simp add: algebra_simps)
  from a b c d show ?thesis by blast
qed

theorem C8_rotation_witness:
  "pointsRef (ParticleHead_frames (8 / 100) [1, 7, 7]
      \<lparr> materialRef = Some 0, pointsRef = Some 1 \<rparr>) = Some (1 + 3 * (8 / 100) * (5 / 1000))
   \<and> DiskFrame_frames (8 / 100) 2 (Some 0) = Some (2 * (8 / 100) * (5 / 1000))"
  using C8_rotation_accumulates
          [where refs = "\<lparr> materialRef = Some 0, pointsRef = Some 1 \<rparr>" and y = 1
             and rotationSpeed = "8 / 100" and elapsed = 0 and clock = "[1, 7, 7]"
             and g = 0 and k = 2]
  by simp

section \<open>Loops that store one point per iteration\<close>

lemma length_triples [simp]: "length (triples f n) = n * 3"
  by (induction n) (simp_all add: triples_def split: prod.splits)

lemma triples_Suc: "triples f (Suc n) = triples f n @ (case f n of (x, y, z) \<Rightarrow> [x, y, z])"
  by (simp add: triples_def)

lemma point_at_triples: "i < n \<Longrightarrow> point_at (triples f n) i = f i"
proof (induction n)
  case 0
  then show ?case by simp
next
  case (Suc n)
  obtain x y z where f: "f n = (x, y, z)" by (cases "f n") auto
  show ?case
  proof (cases "i < n")
    case True
    then have "i * 3 + 2 < n * 3" by simp
    then have "point_at (triples f (Suc n)) i = point_at (triples f n) i"
      by (simp add: point_at_def triples_Suc nth_append)
    with Suc.IH[OF True] show ?thesis by simp
  next
    case False
    with Suc.prems have "i = n" by simp
    then show ?thesis
      by (simp add: point_at_def triples_Suc nth_append f)
  qed
qed

lemma write3_append:
  assumes "length A = k * 3" and "3 \<le> length B"
  shows "write3 (A @ B) k x y z = A @ [x, y, z] @ drop 3 B"
proof -
  from assms(2) obtain b0 b1 b2 B' where B: "B = b0 # b1 # b2 # B'"
    by (cases B; cases "tl B"; cases "tl (tl B)") auto
  show ?thesis
    using assms(1) by (simp add: write3_def B list_update_append)
qed

lemma fold_write3:
  "k * 3 \<le> length init \<Longrightarrow>
   fold (\<lambda>i a. case f i of (x, y, z) \<Rightarrow> write3 a i x y z) [0..<k] init
     = triples f k @ drop (k * 3) init"
proof (induction k)
  case 0
  then show ?case by (simp add: triples_def)
next
  case (Suc k)
  obtain x y z where f: "f k = (x, y, z)" by (cases "f k") auto
  from Suc.prems have le: "k * 3 \<le> length init" and B: "3 \<le> length (drop (k * 3) init)"
    by simp_all
  have "fold (\<lambda>i a. case f i of (x, y, z) \<Rightarrow> write3 a i x y z) [0..<Suc k] init
          = write3 (triples f k @ drop (k * 3) init) k x y z"
    using Suc.IH[OF le] by (simp add: f)
  also have "\<dots> = triples f k @ [x, y, z] @ drop 3 (drop (k * 3) init)"
    by (rule write3_append[OF _ B]) simp
  also have "\<dots> = triples f (Suc k) @ drop (Suc k * 3) init"
    by (simp add: triples_Suc f add.commute)
  finally show ?case .
qed

lemma fold_write3_new:
  "fold (\<lambda>i a. case f i of (x, y, z) \<Rightarrow> write3 a i x y z) [0..<k] (new_Float32Array (k * 3))
     = triples f k"
  using fold_write3[of k "new_Float32Array (k * 3)" f] by (simp add: new_Float32Array_def)

section \<open>Material classification\<close>

lemma luminance_white: "color m = Some (RGB 1 1 1) \<Longrightarrow> luminance m = 1"
  by (simp add: luminance_def)

lemma luminance_black: "color m = Some (RGB 0 0 0) \<or> color m = None \<Longrightarrow> luminance m = 0"
  by (auto simp add: luminance_def)

lemma hasEmissive_iff:
  "hasEmissive m \<longleftrightarrow> (\<exists>r g b. emissive m = Some (RGB r g b) \<and> r + g + b > 1 / 10)"
  by (auto simp add: hasEmissive_def split: option.splits rgb.splits)

text \<open>
  The claim C5 as it is worded fails in its last part: a glow replacement does
  not keep the \<^verbatim>\<open>transparent\<close> flag of the original. A white, opaque-flagged
  material of opacity 0.5 is classified as glow and comes out transparent.
\<close>

theorem C5_glow_transparent_counterexample:
  "is_glow (GltfDisk_material ''#6fdbff''
      \<lparr> color = Some (RGB 1 1 1), emissive = None, transparent = False,
        opacity = 5 / 10, side = Some DoubleSide \<rparr>)
   \<and> new_transparent (GltfDisk_material ''#6fdbff''
      \<lparr> color = Some (RGB 1 1 1), emissive = None, transparent = False,
        opacity = 5 / 10, side = Some DoubleSide \<rparr>)
     \<noteq> transparent
      \<lparr> color = Some (RGB 1 1 1), emissive = None, transparent = False,
        opacity = 5 / 10, side = Some DoubleSide \<rparr>"
  by (simp add: GltfDisk_material_def luminance_def hasEmissive_def)

text \<open>
  C5 (amended). A material is replaced by a glow material exactly when the
  luminance \<open>0.299 r + 0.587 g + 0.114 b\<close> of its base colour (black when it
  has none) exceeds 0.5 or the sum of its emissive channels exceeds 0.1, and by
  a body material otherwise. White is glow, black without emissive is body, and
  an emissive sum above 0.1 is glow whatever the luminance. A body replacement
  has opacity \<open>min opacity 0.95\<close> and the original face culling (front when
  unspecified). A glow replacement has the original opacity and face culling;
  it is transparent when the original is flagged transparent or has opacity
  below 1 (so is a body replacement).
\<close>

theorem C5_classification:
  "(is_glow (GltfDisk_material glowColor m)
      \<longleftrightarrow> luminance m > 5 / 10
          \<or> (\<exists>r g b. emissive m = Some (RGB r g b) \<and> r + g + b > 1 / 10))
   \<and> (color m = Some (RGB 1 1 1) \<longrightarrow> is_glow (GltfDisk_material glowColor m))
   \<and> (color m = Some (RGB 0 0 0) \<and> emissive m = None
        \<longrightarrow> \<not> is_glow (GltfDisk_material glowColor m))
   \<and> (luminance m \<le> 5 / 10 \<and> emissive m = Some (RGB r g b) \<and> r + g + b > 1 / 10
        \<longrightarrow> is_glow (GltfDisk_material glowColor m))
   \<and> (\<not> is_glow (GltfDisk_material glowColor m)
        \<longrightarrow> new_opacity (GltfDisk_material glowColor m) = min (opacity m) (95 / 100)
          \<and> new_opacity (GltfDisk_material glowColor m) \<le> 95 / 100
          \<and> new_side (GltfDisk_material glowColor m)
              = Some (case side m of None \<Rightarrow> FrontSide | Some s \<Rightarrow> s))
   \<and> (is_glow (GltfDisk_material glowColor m)
        \<longrightarrow> new_opacity (GltfDisk_material glowColor m) = opacity m
          \<and> new_side (GltfDisk_material glowColor m) = side m)
   \<and> (new_transparent (GltfDisk_material glowColor m)
        \<longleftrightarrow> transparent m \<or> opacity m < 1)"
proof -
  let ?n = "GltfDisk_material glowColor m"
  have glow: "is_glow ?n \<longleftrightarrow> luminance m > 5 / 10 \<or> hasEmissive m"
    by (simp add: GltfDisk_material_def)
  have 1: "is_glow ?n \<longleftrightarrow> luminance m > 5 / 10
          \<or> (\<exists>r g b. emissive m = Some (RGB r g b) \<and> r + g + b > 1 / 10)"
    using glow hasEmissive_iff[of m] by simp
  have 2: "color m = Some (RGB 1 1 1) \<longrightarrow> is_glow ?n"
    using glow luminance_white[of m] by simp
  have 3: "color m = Some (RGB 0 0 0) \<and> emissive m = None \<longrightarrow> \<not> is_glow ?n"
    using glow luminance_black[of m] by (simp add: hasEmissive_def)
  have 4: "luminance m \<le> 5 / 10 \<and> emissive m = Some (RGB r g b) \<and> r + g + b > 1 / 10
        \<longrightarrow> is_glow ?n"
    using 1 by blast
  have 5: "\<not> is_glow ?n \<longrightarrow> new_opacity ?n = min (opacity m) (95 / 100)
          \<and> new_opacity ?n \<le> 95 / 100
          \<and> new_side ?n = Some (case side m of None \<Rightarrow> FrontSide | Some s \<Rightarrow> s)"
    by (auto simp add: GltfDisk_material_def)
  have 6: "is_glow ?n \<longrightarrow> new_opacity ?n = opacity m \<and> new_side ?n = side m"
    by (simp add: GltfDisk_material_def)
  have 7: "new_transparent ?n \<longleftrightarrow> transparent m \<or> opacity m < 1"
    by (simp add: GltfDisk_material_def)
  from 1 2 3 4 5 6 7 show ?thesis by blast
qed

theorem C5_classification_witness:
  "is_glow (GltfDisk_material ''#6fdbff''
      \<lparr> color = Some (RGB 0 0 0), emissive = Some (RGB (2 / 10) 0 0), transparent = False,
        opacity = 1, side = Some BackSide \<rparr>)
   \<and> new_side (GltfDisk_material ''#6fdbff''
      \<lparr> color = Some (RGB 0 0 0), emissive = Some (RGB (2 / 10) 0 0), transparent = False,
        opacity = 1, side = Some BackSide \<rparr>) = Some BackSide
   \<and> \<not> is_glow (GltfDisk_material ''#6fdbff''
      \<lparr> color = Some (RGB 0 0 0), emissive = None, transparent = False,
        opacity = 1, side = None \<rparr>)
   \<and> new_opacity (GltfDisk_material ''#6fdbff''
      \<lparr> color = Some (RGB 0 0 0), emissive = None, transparent = False,
        opacity = 1, side = None \<rparr>) = 95 / 100
   \<and> new_side (GltfDisk_material ''#6fdbff''
      \<lparr> color = Some (RGB 0 0 0), emissive = None, transparent = False,
        opacity = 1, side = None \<rparr>) = Some FrontSide"
proof -
  let ?m1 = "\<lparr> color = Some (RGB 0 0 0), emissive = Some (RGB (2 / 10) 0 0),
               transparent = False, opacity = 1, side = Some BackSide \<rparr>"
  let ?m2 = "\<lparr> color = Some (RGB 0 0 0), emissive = None,
               transparent = False, opacity = 1, side = None \<rparr>"
  note t1 = C5_classification
              [where glowColor = "''#6fdbff''" and r = "2 / 10" and g = 0 and b = 0 and m = ?m1]
  note t2 = C5_classification
              [where glowColor = "''#6fdbff''" and r = 0 and g = 0 and b = 0 and m = ?m2]
  have p1: "luminance ?m1 \<le> 5 / 10 \<and> emissive ?m1 = Some (RGB (2 / 10) 0 0)
            \<and> (2 / 10 :: real) + 0 + 0 > 1 / 10"
    by (simp add: luminance_def)
  have p2: "color ?m2 = Some (RGB 0 0 0) \<and> emissive ?m2 = None"
    by simp
  from t1 p1 have g1: "is_glow (GltfDisk_material ''#6fdbff'' ?m1)"
    by blast
  from t1 g1 have s1: "new_side (GltfDisk_material ''#6fdbff'' ?m1) = Some BackSide"
    by simp
  from t2 p2 have g2: "\<not> is_glow (GltfDisk_material ''#6fdbff'' ?m2)"
    by blast
  from t2 g2 have o2: "new_opacity (GltfDisk_material ''#6fdbff'' ?m2) = min (opacity ?m2) (95 / 100)"
    and s2: "new_side (GltfDisk_material ''#6fdbff'' ?m2)
               = Some (case side ?m2 of None \<Rightarrow> FrontSide | Some s \<Rightarrow> s)"
    by blast+
  from g1 s1 g2 o2 s2 show ?thesis by simp
qed

section \<open>Sampling\<close>

text \<open>
  C4. When the number of input points \<open>N = length / 3\<close> is at most \<open>maxCount\<close>,
  \<open>samplePositions\<close> returns its input unchanged, whatever the random source.
\<close>

theorem C4_sample_identity:
  assumes "real (length allPositions) / 3 \<le> real maxCount"
  shows "samplePositions allPositions maxCount rnd = allPositions"
  using assms by (simp add: samplePositions_def)

theorem C4_sample_identity_witness:
  "samplePositions [Finite 1, Finite 2, Finite 3, Finite 4, Finite 5, Finite 6] 2
      (rnd_fixed [9 / 10, 1 / 10])
     = [Finite 1, Finite 2, Finite 3, Finite 4, Finite 5, Finite 6]"
  using C4_sample_identity
          [of "[Finite 1, Finite 2, Finite 3, Finite 4, Finite 5, Finite 6]" 2
              "rnd_fixed [9 / 10, 1 / 10]"]
  by simp

section \<open>Sampling: the reads are in range\<close>

lemma f32_read_nat:
  "f32_read a (real k) = (if k < length a then Some (a ! k) else None)"
  by (simp add: f32_read_def)

lemma f32_read_nat_off:
  "f32_read a (real j * 3 + real c) = (if j * 3 + c < length a then Some (a ! (j * 3 + c)) else None)"
  using f32_read_nat[of a "j * 3 + c"] by simp





section \<open>Sampling: one point per bucket\<close>

lemma rnd_fixed_range:
  assumes "\<forall>v \<in> set vs. 0 \<le> v \<and> v < 1"
  shows "0 \<le> rnd_fixed vs k \<and> rnd_fixed vs k < 1"
  using assms by (simp add: rnd_fixed_def)

lemma samplePositions_triples:
  assumes "real maxCount < real (length allPositions) / 3"
  shows "samplePositions allPositions maxCount rnd
    = triples (\<lambda>i. (ToNumber (f32_read allPositions
                        (sample_idx (real (length allPositions) / 3)
                           (real (length allPositions) / 3 / real maxCount) rnd i * 3)),
                     ToNumber (f32_read allPositions
                        (sample_idx (real (length allPositions) / 3)
                           (real (length allPositions) / 3 / real maxCount) rnd i * 3 + 1)),
                     ToNumber (f32_read allPositions
                        (sample_idx (real (length allPositions) / 3)
                           (real (length allPositions) / 3 / real maxCount) rnd i * 3 + 2))))
        maxCount"
proof -
  let ?f = "\<lambda>i. (ToNumber (f32_read allPositions
                        (sample_idx (real (length allPositions) / 3)
                           (real (length allPositions) / 3 / real maxCount) rnd i * 3)),
                     ToNumber (f32_read allPositions
                        (sample_idx (real (length allPositions) / 3)
                           (real (length allPositions) / 3 / real maxCount) rnd i * 3 + 1)),
                     ToNumber (f32_read allPositions
                        (sample_idx (real (length allPositions) / 3)
                           (real (length allPositions) / 3 / real maxCount) rnd i * 3 + 2)))"
  have "samplePositions allPositions maxCount rnd
          = fold (\<lambda>i a. case ?f i of (x, y, z) \<Rightarrow> write3 a i x y z) [0..<maxCount]
              (new_Float32Array (maxCount * 3))"
    using assms by (simp add: samplePositions_def Let_def)
  then show ?thesis by (simp only: fold_write3_new)
qed





section \<open>Sampling under rounding\<close>

lemma sample_idx_no_rounding:
  "sample_idx_rounded no_rounding totalVertices step rnd i = sample_idx totalVertices step rnd i"
  by (simp add: sample_idx_rounded_def sample_idx_def no_rounding_def)

lemma samplePositions_no_rounding:
  "samplePositions_rounded no_rounding allPositions maxCount rnd
     = samplePositions allPositions maxCount rnd"
  by (simp add: samplePositions_rounded_def samplePositions_def sample_idx_no_rounding Let_def)
     (simp add: no_rounding_def)







section \<open>The fallback sphere\<close>

lemma generateFallbackSphere_triples:
  "generateFallbackSphere count rnd = triples (fallback_point count rnd) count"
  by (simp only: generateFallbackSphere_def fold_write3_new)

lemma length_generateFallbackSphere:
  "length (generateFallbackSphere count rnd) = count * 3"
  by (simp only: generateFallbackSphere_triples length_triples)

lemma fallback_acos_arg:
  assumes "i < count"
  shows "- 1 \<le> 1 - (2 * (real i + 5 / 10)) / real count"
    and "1 - (2 * (real i + 5 / 10)) / real count \<le> 1"
proof -
  have c: "0 < real count" using assms by simp
  have "real i + 1 \<le> real count" using assms
    by (metis Suc_leI of_nat_Suc of_nat_le_iff add.commute)
  then have "2 * (real i + 5 / 10) \<le> 2 * real count" by simp
  then have "(2 * (real i + 5 / 10)) / real count \<le> 2"
    using c by (simp add: pos_divide_le_eq)
  then show "- 1 \<le> 1 - (2 * (real i + 5 / 10)) / real count" by simp
  have "0 \<le> (2 * (real i + 5 / 10)) / real count" using c by simp
  then show "1 - (2 * (real i + 5 / 10)) / real count \<le> 1" by simp
qed

lemma fallback_point_finite:
  assumes "i < count"
  shows "fallback_point count rnd i =
    (Finite ((12 / 10 + (rnd i - 5 / 10) * (3 / 10))
               * sin (arccos (1 - (2 * (real i + 5 / 10)) / real count))
               * cos (pi * (1 + sqrt 5) * real i)),
     Finite ((12 / 10 + (rnd i - 5 / 10) * (3 / 10))
               * sin (arccos (1 - (2 * (real i + 5 / 10)) / real count))
               * sin (pi * (1 + sqrt 5) * real i)),
     Finite ((12 / 10 + (rnd i - 5 / 10) * (3 / 10))
               * cos (arccos (1 - (2 * (real i + 5 / 10)) / real count))))"
  using fallback_acos_arg[OF assms]
  by (simp add: fallback_point_def Let_def del: cos_arccos sin_arccos)

lemma spherical_radius:
  fixes r :: real
  assumes "0 \<le> r"
  shows "radius (r * sin p * cos t, r * sin p * sin t, r * cos p) = r"
proof -
  have "(r * sin p * cos t)\<^sup>2 + (r * sin p * sin t)\<^sup>2 + (r * cos p)\<^sup>2 = r\<^sup>2"
    by (simp add: power_mult_distrib sin_squared_eq algebra_simps)
  then show ?thesis using assms by (simp add: radius_def)
qed

text \<open>
  C3. \<open>generateFallbackSphere count\<close> returns exactly \<open>count\<close> points; the
  \<open>i\<close>-th is the point of spherical coordinates \<open>phi = acos (1 - 2 (i + 0.5) / count)\<close>,
  \<open>theta = \<pi> (1 + \<surd>5) i\<close> and radius \<open>r = 1.2 + (random - 0.5) * 0.3\<close>, which
  depends on the \<open>i\<close>-th random value only; its distance from the origin is \<open>r\<close>
  and lies within \<open>[0.85 * 1.2, 1.15 * 1.2]\<close> (indeed within \<open>[1.05, 1.35)\<close>).
\<close>

theorem C3_fallback_sphere:
  assumes rnd: "\<forall>k. 0 \<le> rnd k \<and> rnd k < 1"
  shows "length (generateFallbackSphere count rnd) = count * 3
       \<and> (\<forall>i<count. \<exists>x y z r.
             point_at (generateFallbackSphere count rnd) i = (Finite x, Finite y, Finite z)
           \<and> r = 12 / 10 + (rnd i - 5 / 10) * (3 / 10)
           \<and> x = r * sin (arccos (1 - 2 * (real i + 5 / 10) / real count))
                    * cos (pi * (1 + sqrt 5) * real i)
           \<and> y = r * sin (arccos (1 - 2 * (real i + 5 / 10) / real count))
                    * sin (pi * (1 + sqrt 5) * real i)
           \<and> z = r * cos (arccos (1 - 2 * (real i + 5 / 10) / real count))
           \<and> radius (x, y, z) = r
           \<and> 105 / 100 \<le> r \<and> r < 135 / 100
           \<and> 85 / 100 * (12 / 10) \<le> radius (x, y, z)
           \<and> radius (x, y, z) \<le> 115 / 100 * (12 / 10))"
proof -
  have b: "\<exists>x y z r.
             point_at (generateFallbackSphere count rnd) i = (Finite x, Finite y, Finite z)
           \<and> r = 12 / 10 + (rnd i - 5 / 10) * (3 / 10)
           \<and> x = r * sin (arccos (1 - 2 * (real i + 5 / 10) / real count))
                    * cos (pi * (1 + sqrt 5) * real i)
           \<and> y = r * sin (arccos (1 - 2 * (real i + 5 / 10) / real count))
                    * sin (pi * (1 + sqrt 5) * real i)
           \<and> z = r * cos (arccos (1 - 2 * (real i + 5 / 10) / real count))
           \<and> radius (x, y, z) = r
           \<and> 105 / 100 \<le> r \<and> r < 135 / 100
           \<and> 85 / 100 * (12 / 10) \<le> radius (x, y, z)
           \<and> radius (x, y, z) \<le> 115 / 100 * (12 / 10)" if i: "i < count" for i
  proof -
    let ?r = "12 / 10 + (rnd i - 5 / 10) * (3 / 10)"
    let ?p = "arccos (1 - 2 * (real i + 5 / 10) / real count)"
    let ?t = "pi * (1 + sqrt 5) * real i"
    from rnd have r_lo: "0 \<le> rnd i" and r_hi: "rnd i < 1" by simp_all
    have r1: "105 / 100 \<le> ?r" using r_lo by argo
    have r2: "?r < 135 / 100" using r_hi by argo
    have r0: "0 \<le> ?r" using r_lo by argo
    have pt: "point_at (generateFallbackSphere count rnd) i
                = (Finite (?r * sin ?p * cos ?t), Finite (?r * sin ?p * sin ?t),
                   Finite (?r * cos ?p))"
      by (simp only: generateFallbackSphere_triples point_at_triples[OF i]
            fallback_point_finite[OF i])
    have rad: "radius (?r * sin ?p * cos ?t, ?r * sin ?p * sin ?t, ?r * cos ?p) = ?r"
      by (rule spherical_radius[OF r0])
    have lo: "85 / 100 * (12 / 10)
                \<le> radius (?r * sin ?p * cos ?t, ?r * sin ?p * sin ?t, ?r * cos ?p)"
      unfolding rad using r_lo by argo
    have hi: "radius (?r * sin ?p * cos ?t, ?r * sin ?p * sin ?t, ?r * cos ?p)
                \<le> 115 / 100 * (12 / 10)"
      unfolding rad using r_hi by argo
    show ?thesis
      by (intro exI conjI) (rule pt refl rad r1 r2 lo hi)+
  qed
  from length_generateFallbackSphere[of count rnd] b show ?thesis by blast
qed

theorem C3_fallback_sphere_witness:
  "length (generateFallbackSphere 2 (rnd_fixed [0, 1 / 2])) = 2 * 3
   \<and> (\<exists>x y z. point_at (generateFallbackSphere 2 (rnd_fixed [0, 1 / 2])) 1
                  = (Finite x, Finite y, Finite z)
        \<and> radius (x, y, z) = 12 / 10)"
proof -
  have r: "\<forall>k. 0 \<le> rnd_fixed [0, 1 / 2] k \<and> rnd_fixed [0, 1 / 2] k < 1"
    by (intro allI rnd_fixed_range) simp
  have v: "rnd_fixed [0, 1 / 2] 1 = 1 / 2" by (simp add: rnd_fixed_def)
  note t = C3_fallback_sphere[OF r, of 2]
  have l: "length (generateFallbackSphere 2 (rnd_fixed [0, 1 / 2])) = 2 * 3"
    using t by (rule conjunct1)
  have "(1::nat) < 2" by simp
  with conjunct2[OF t] obtain x y z r' where
    p: "point_at (generateFallbackSphere 2 (rnd_fixed [0, 1 / 2])) 1
          = (Finite x, Finite y, Finite z)"
    and r': "r' = 12 / 10 + (rnd_fixed [0, 1 / 2] 1 - 5 / 10) * (3 / 10)"
    and rad: "radius (x, y, z) = r'"
    by blast
  have "radius (x, y, z) = 12 / 10" using rad r' unfolding v by simp
  with l p show ?thesis by blast
qed

text \<open>What the points of the fallback sphere are, one by one: the form in which
  other results use the fallback.\<close>

lemma fallback_sphere_point:
  assumes rnd: "\<forall>k. 0 \<le> rnd k \<and> rnd k < 1" and i: "i < count"
  shows "\<exists>x y z r.
             point_at (generateFallbackSphere count rnd) i = (Finite x, Finite y, Finite z)
           \<and> r = 12 / 10 + (rnd i - 5 / 10) * (3 / 10)
           \<and> x = r * sin (arccos (1 - 2 * (real i + 5 / 10) / real count))
                    * cos (pi * (1 + sqrt 5) * real i)
           \<and> y = r * sin (arccos (1 - 2 * (real i + 5 / 10) / real count))
                    * sin (pi * (1 + sqrt 5) * real i)
           \<and> z = r * cos (arccos (1 - 2 * (real i + 5 / 10) / real count))
           \<and> radius (x, y, z) = r
           \<and> 105 / 100 \<le> r \<and> r < 135 / 100
           \<and> 85 / 100 * (12 / 10) \<le> radius (x, y, z)
           \<and> radius (x, y, z) \<le> 115 / 100 * (12 / 10)"
proof -
  let ?r = "12 / 10 + (rnd i - 5 / 10) * (3 / 10)"
  let ?p = "arccos (1 - 2 * (real i + 5 / 10) / real count)"
  let ?t = "pi * (1 + sqrt 5) * real i"
  from rnd have r_lo: "0 \<le> rnd i" and r_hi: "rnd i < 1" by simp_all
  have r1: "105 / 100 \<le> ?r" using r_lo by argo
  have r2: "?r < 135 / 100" using r_hi by argo
  have r0: "0 \<le> ?r" using r_lo by argo
  have pt: "point_at (generateFallbackSphere count rnd) i
              = (Finite (?r * sin ?p * cos ?t), Finite (?r * sin ?p * sin ?t),
                 Finite (?r * cos ?p))"
    by (simp only: generateFallbackSphere_triples point_at_triples[OF i]
          fallback_point_finite[OF i])
  have rad: "radius (?r * sin ?p * cos ?t, ?r * sin ?p * sin ?t, ?r * cos ?p) = ?r"
    by (rule spherical_radius[OF r0])
  have lo: "85 / 100 * (12 / 10)
              \<le> radius (?r * sin ?p * cos ?t, ?r * sin ?p * sin ?t, ?r * cos ?p)"
    unfolding rad using r_lo by argo
  have hi: "radius (?r * sin ?p * cos ?t, ?r * sin ?p * sin ?t, ?r * cos ?p)
              \<le> 115 / 100 * (12 / 10)"
    unfolding rad using r_hi by argo
  show ?thesis
    by (intro exI conjI) (rule pt refl rad r1 r2 lo hi)+
qed

section \<open>Loading a model: fallback and recovery\<close>

lemma loader_for_None_iff:
  "loader_for ext = None \<longleftrightarrow> ext \<notin> {''obj'', ''ply'', ''glb'', ''gltf''}"
  by (simp add: loader_for_def)

lemma effect_no_path:
  assumes "modelPath = None \<or> modelPath = Some []"
  shows "useModelPositions_effect modelPath particleCount rnd
           = \<lparr> positions_state = Some (generateFallbackSphere particleCount rnd),
               warnings = [], loads = [] \<rparr>"
  using assms by (auto simp add: useModelPositions_effect_def use_fallback_def hook_init_def)

lemma effect_unsupported:
  assumes "path \<noteq> []" and "loader_for (model_ext path) = None"
  shows "useModelPositions_effect (Some path) particleCount rnd
           = \<lparr> positions_state = Some (generateFallbackSphere particleCount rnd),
               warnings = [Unsupported_format (model_ext path)], loads = [] \<rparr>"
  using assms by (simp add: useModelPositions_effect_def use_fallback_def hook_init_def)

lemma effect_dispatch:
  assumes "path \<noteq> []" and "loader_for (model_ext path) = Some l"
  shows "useModelPositions_effect (Some path) particleCount rnd
           = \<lparr> positions_state = None, warnings = [], loads = [(l, ''/models/'' @ path)] \<rparr>"
  using assms by (simp add: useModelPositions_effect_def hook_init_def)

lemma onLoad_cases:
  "onLoad ext particleCount rnd result st =
     (case extractPositions result of
        None \<Rightarrow> use_fallback [No_vertex_data] particleCount rnd st
      | Some a \<Rightarrow>
          if a = [] then use_fallback [No_vertex_data] particleCount rnd st
          else st\<lparr> positions_state :=
                    Some (normalizePositions (samplePositions a particleCount rnd) (13 / 10)) \<rparr>)"
  by (simp add: onLoad_def split: option.splits)

text \<open>
  C7. When no model path is supplied (\<open>modelPath\<close> absent or empty), the effect
  itself sets the positions, without a warning and without dispatching a load,
  and the state is the same whatever a loader would have answered. The
  positions are exactly \<open>particleCount\<close> points of the fallback sphere: for random
  values in \<open>[0, 1)\<close>, point \<open>i\<close> has the spherical coordinates
  \<open>phi = acos (1 - 2 (i + 0.5) / particleCount)\<close>, \<open>theta = \<pi> (1 + \<surd>5) i\<close> and
  radius \<open>1.2 + (random - 0.5) * 0.3\<close>, at a distance from the origin within
  \<open>[0.85 * 1.2, 1.15 * 1.2]\<close>.
\<close>

theorem C7_no_model_path:
  assumes "modelPath = None \<or> modelPath = Some []"
    and rnd: "\<forall>k. 0 \<le> rnd k \<and> rnd k < 1"
  shows "positions_state (useModelPositions_effect modelPath particleCount rnd)
           = Some (generateFallbackSphere particleCount rnd)
       \<and> length (generateFallbackSphere particleCount rnd) = particleCount * 3
       \<and> (\<forall>i<particleCount. \<exists>x y z r.
             point_at (generateFallbackSphere particleCount rnd) i
               = (Finite x, Finite y, Finite z)
           \<and> r = 12 / 10 + (rnd i - 5 / 10) * (3 / 10)
           \<and> x = r * sin (arccos (1 - 2 * (real i + 5 / 10) / real particleCount))
                    * cos (pi * (1 + sqrt 5) * real i)
           \<and> y = r * sin (arccos (1 - 2 * (real i + 5 / 10) / real particleCount))
                    * sin (pi * (1 + sqrt 5) * real i)
           \<and> z = r * cos (arccos (1 - 2 * (real i + 5 / 10) / real particleCount))
           \<and> radius (x, y, z) = r
           \<and> 85 / 100 * (12 / 10) \<le> radius (x, y, z)
           \<and> radius (x, y, z) \<le> 115 / 100 * (12 / 10))
       \<and> loads (useModelPositions_effect modelPath particleCount rnd) = []
       \<and> warnings (useModelPositions_effect modelPath particleCount rnd) = []
       \<and> useModelPositions modelPath particleCount rnd ev
           = useModelPositions_effect modelPath particleCount rnd"
proof -
  note e = effect_no_path[OF assms(1), of particleCount rnd]
  have u: "useModelPositions modelPath particleCount rnd ev
           = useModelPositions_effect modelPath particleCount rnd"
    by (simp add: useModelPositions_def e)
  have p: "\<forall>i<particleCount. \<exists>x y z r.
             point_at (generateFallbackSphere particleCount rnd) i
               = (Finite x, Finite y, Finite z)
           \<and> r = 12 / 10 + (rnd i - 5 / 10) * (3 / 10)
           \<and> x = r * sin (arccos (1 - 2 * (real i + 5 / 10) / real particleCount))
                    * cos (pi * (1 + sqrt 5) * real i)
           \<and> y = r * sin (arccos (1 - 2 * (real i + 5 / 10) / real particleCount))
                    * sin (pi * (1 + sqrt 5) * real i)
           \<and> z = r * cos (arccos (1 - 2 * (real i + 5 / 10) / real particleCount))
           \<and> radius (x, y, z) = r
           \<and> 85 / 100 * (12 / 10) \<le> radius (x, y, z)
           \<and> radius (x, y, z) \<le> 115 / 100 * (12 / 10)"
    using fallback_sphere_point[OF rnd, of _ particleCount] by blast
  have s: "positions_state (useModelPositions_effect modelPath particleCount rnd)
           = Some (generateFallbackSphere particleCount rnd)"
    and l: "loads (useModelPositions_effect modelPath particleCount rnd) = []"
    and w: "warnings (useModelPositions_effect modelPath particleCount rnd) = []"
    by (simp_all add: e)
  from s length_generateFallbackSphere[of particleCount rnd] p l w u
  show ?thesis by blast
qed

theorem C7_no_model_path_witness:
  "positions_state (useModelPositions None 2 (rnd_fixed [0, 1 / 2]) Failed)
     = Some (generateFallbackSphere 2 (rnd_fixed [0, 1 / 2]))
   \<and> length (generateFallbackSphere 2 (rnd_fixed [0, 1 / 2])) = 2 * 3
   \<and> (\<exists>x y z. point_at (generateFallbackSphere 2 (rnd_fixed [0, 1 / 2])) 1
                  = (Finite x, Finite y, Finite z)
        \<and> radius (x, y, z) = 12 / 10)
   \<and> loads (useModelPositions None 2 (rnd_fixed [0, 1 / 2]) Failed) = []"
proof -
  have r: "\<forall>k. 0 \<le> rnd_fixed [0, 1 / 2] k \<and> rnd_fixed [0, 1 / 2] k < 1"
    by (intro allI rnd_fixed_range) simp
  have v: "rnd_fixed [0, 1 / 2] 1 = 1 / 2" by (simp add: rnd_fixed_def)
  have n: "(None :: string option) = None \<or> (None :: string option) = Some []" by simp
  note t = C7_no_model_path[OF n r, of 2 Failed]
  have one: "(1::nat) < 2" by simp
  from t have s: "positions_state (useModelPositions_effect None 2 (rnd_fixed [0, 1 / 2]))
     = Some (generateFallbackSphere 2 (rnd_fixed [0, 1 / 2]))"
    and l: "length (generateFallbackSphere 2 (rnd_fixed [0, 1 / 2])) = 2 * 3"
    and lo: "loads (useModelPositions_effect None 2 (rnd_fixed [0, 1 / 2])) = []"
    and u: "useModelPositions None 2 (rnd_fixed [0, 1 / 2]) Failed
              = useModelPositions_effect None 2 (rnd_fixed [0, 1 / 2])"
    by blast+
  from t one obtain x y z r' where
    p: "point_at (generateFallbackSphere 2 (rnd_fixed [0, 1 / 2])) 1
          = (Finite x, Finite y, Finite z)"
    and r': "r' = 12 / 10 + (rnd_fixed [0, 1 / 2] 1 - 5 / 10) * (3 / 10)"
    and rad: "radius (x, y, z) = r'"
    by blast
  have "radius (x, y, z) = 12 / 10" using rad r' unfolding v by simp
  with p have ex: "\<exists>x y z. point_at (generateFallbackSphere 2 (rnd_fixed [0, 1 / 2])) 1
                  = (Finite x, Finite y, Finite z) \<and> radius (x, y, z) = 12 / 10"
    by blast
  from s l lo ex show ?thesis unfolding u by blast
qed

text \<open>
  With a model path supplied, each of the three failure kinds ends in the
  same way: one warning is logged and the positions are the fallback sphere
  \<open>generateFallbackSphere particleCount\<close>, which has exactly \<open>particleCount\<close>
  points. The kinds are: an extension other than obj, ply, glb, gltf (no load
  is dispatched); a dispatched load that calls the error callback; a
  dispatched load that succeeds with no position data (nothing extracted, or
  an empty array). A load that yields position data sets the positions to the
  sampled and normalised points, whatever they are. Hence once the effect has
  run and a dispatched load has called back, the positions are never null.
\<close>

lemma failure_kinds_fall_back:
  assumes path: "path \<noteq> []"
  shows "(model_ext path \<notin> {''obj'', ''ply'', ''glb'', ''gltf''} \<longrightarrow>
            useModelPositions (Some path) particleCount rnd ev
              = \<lparr> positions_state = Some (generateFallbackSphere particleCount rnd),
                  warnings = [Unsupported_format (model_ext path)], loads = [] \<rparr>)
       \<and> (loader_for (model_ext path) = Some l \<longrightarrow>
            useModelPositions (Some path) particleCount rnd Failed
              = \<lparr> positions_state = Some (generateFallbackSphere particleCount rnd),
                  warnings = [Failed_to_load_model], loads = [(l, ''/models/'' @ path)] \<rparr>)
       \<and> (loader_for (model_ext path) = Some l
            \<and> (extractPositions result = None \<or> extractPositions result = Some []) \<longrightarrow>
            useModelPositions (Some path) particleCount rnd (Loaded result)
              = \<lparr> positions_state = Some (generateFallbackSphere particleCount rnd),
                  warnings = [No_vertex_data], loads = [(l, ''/models/'' @ path)] \<rparr>)
       \<and> (loader_for (model_ext path) = Some l
            \<and> extractPositions result = Some a \<and> a \<noteq> [] \<longrightarrow>
            useModelPositions (Some path) particleCount rnd (Loaded result)
              = \<lparr> positions_state =
                    Some (normalizePositions (samplePositions a particleCount rnd) (13 / 10)),
                  warnings = [], loads = [(l, ''/models/'' @ path)] \<rparr>)
       \<and> length (generateFallbackSphere particleCount rnd) = particleCount * 3
       \<and> positions_state (useModelPositions (Some path) particleCount rnd ev) \<noteq> None
       \<and> positions_state (useModelPositions None particleCount rnd ev) \<noteq> None
       \<and> positions_state (useModelPositions (Some []) particleCount rnd ev) \<noteq> None"
proof -
  have unsupported:
    "useModelPositions (Some path) particleCount rnd ev
       = \<lparr> positions_state = Some (generateFallbackSphere particleCount rnd),
           warnings = [Unsupported_format (model_ext path)], loads = [] \<rparr>"
    if "model_ext path \<notin> {''obj'', ''ply'', ''glb'', ''gltf''}"
  proof -
    from that have "loader_for (model_ext path) = None"
      by (simp add: loader_for_None_iff)
    from effect_unsupported[OF path this] show ?thesis
      by (simp add: useModelPositions_def)
  qed
  have failed:
    "useModelPositions (Some path) particleCount rnd Failed
       = \<lparr> positions_state = Some (generateFallbackSphere particleCount rnd),
           warnings = [Failed_to_load_model], loads = [(l, ''/models/'' @ path)] \<rparr>"
    if "loader_for (model_ext path) = Some l"
    using effect_dispatch[OF path that]
    by (simp add: useModelPositions_def onError_def use_fallback_def)
  have empty:
    "useModelPositions (Some path) particleCount rnd (Loaded result)
       = \<lparr> positions_state = Some (generateFallbackSphere particleCount rnd),
           warnings = [No_vertex_data], loads = [(l, ''/models/'' @ path)] \<rparr>"
    if "loader_for (model_ext path) = Some l"
      and "extractPositions result = None \<or> extractPositions result = Some []"
    using effect_dispatch[OF path that(1)] that(2)
    by (auto simp add: useModelPositions_def onLoad_cases use_fallback_def)
  have loaded:
    "useModelPositions (Some path) particleCount rnd (Loaded result)
       = \<lparr> positions_state =
             Some (normalizePositions (samplePositions a particleCount rnd) (13 / 10)),
           warnings = [], loads = [(l, ''/models/'' @ path)] \<rparr>"
    if "loader_for (model_ext path) = Some l" and "extractPositions result = Some a" and "a \<noteq> []"
    using effect_dispatch[OF path that(1)] that(2,3)
    by (simp add: useModelPositions_def onLoad_cases)
  have ready: "positions_state (useModelPositions (Some path) particleCount rnd ev) \<noteq> None"
  proof (cases "loader_for (model_ext path)")
    case None
    from effect_unsupported[OF path this] show ?thesis
      by (simp add: useModelPositions_def)
  next
    case (Some l')
    from effect_dispatch[OF path this] show ?thesis
      by (cases ev)
         (simp_all add: useModelPositions_def onError_def onLoad_cases use_fallback_def
            Let_def split: option.splits)
  qed
  have none: "positions_state (useModelPositions None particleCount rnd ev) \<noteq> None"
    using effect_no_path[of None particleCount rnd] by (simp add: useModelPositions_def)
  have nil: "positions_state (useModelPositions (Some []) particleCount rnd ev) \<noteq> None"
    using effect_no_path[of "Some []" particleCount rnd] by (simp add: useModelPositions_def)
  from unsupported failed empty loaded ready none nil
    length_generateFallbackSphere[of particleCount rnd]
  show ?thesis by blast
qed

lemma model_ext_xyz: "model_ext ''head.XYZ'' = ''xyz''"
  by code_simp

lemma model_ext_obj: "model_ext ''scan.head.Obj'' = ''obj''"
  by code_simp

lemma failure_kinds_fall_back_example:
  "useModelPositions (Some ''head.XYZ'') 3 (rnd_fixed []) Failed
     = \<lparr> positions_state = Some (generateFallbackSphere 3 (rnd_fixed [])),
         warnings = [Unsupported_format ''xyz''], loads = [] \<rparr>
   \<and> useModelPositions (Some ''scan.head.Obj'') 3 (rnd_fixed []) Failed
     = \<lparr> positions_state = Some (generateFallbackSphere 3 (rnd_fixed [])),
         warnings = [Failed_to_load_model], loads = [(OBJLoader, ''/models/scan.head.Obj'')] \<rparr>
   \<and> useModelPositions (Some ''scan.head.Obj'') 3 (rnd_fixed [])
        (Loaded (Scene (Object3D None [])))
     = \<lparr> positions_state = Some (generateFallbackSphere 3 (rnd_fixed [])),
         warnings = [No_vertex_data], loads = [(OBJLoader, ''/models/scan.head.Obj'')] \<rparr>"
proof -
  have p1: "''head.XYZ'' \<noteq> []" and p2: "''scan.head.Obj'' \<noteq> []" by simp_all
  have l2: "loader_for (model_ext ''scan.head.Obj'') = Some OBJLoader"
    by (simp add: model_ext_obj loader_for_def)
  have x1: "model_ext ''head.XYZ'' \<notin> {''obj'', ''ply'', ''glb'', ''gltf''}"
    by (simp add: model_ext_xyz)
  have e: "extractPositions (Scene (Object3D None [])) = None \<or>
           extractPositions (Scene (Object3D None [])) = Some []"
    by simp
  note t1 = failure_kinds_fall_back[OF p1, of 3 "rnd_fixed []" Failed]
  note t2 = failure_kinds_fall_back[OF p2, of 3 "rnd_fixed []" _ OBJLoader "Scene (Object3D None [])"]
  from t1 x1 have a: "useModelPositions (Some ''head.XYZ'') 3 (rnd_fixed []) Failed
     = \<lparr> positions_state = Some (generateFallbackSphere 3 (rnd_fixed [])),
         warnings = [Unsupported_format (model_ext ''head.XYZ'')], loads = [] \<rparr>"
    by blast
  from t2 l2 have b: "useModelPositions (Some ''scan.head.Obj'') 3 (rnd_fixed []) Failed
     = \<lparr> positions_state = Some (generateFallbackSphere 3 (rnd_fixed [])),
         warnings = [Failed_to_load_model], loads = [(OBJLoader, ''/models/'' @ ''scan.head.Obj'')] \<rparr>"
    by blast
  from t2 l2 e have c: "useModelPositions (Some ''scan.head.Obj'') 3 (rnd_fixed [])
        (Loaded (Scene (Object3D None [])))
     = \<lparr> positions_state = Some (generateFallbackSphere 3 (rnd_fixed [])),
         warnings = [No_vertex_data], loads = [(OBJLoader, ''/models/'' @ ''scan.head.Obj'')] \<rparr>"
    by blast
  from a b c show ?thesis by (simp add: model_ext_xyz)
qed

text \<open>
  C6. The claim is that the three failure kinds are handled alike, by a
  warning and the fallback sphere, so that no execution path leaves the
  renderer without a usable point set. The three kinds are handled so
  (\<open>failure_kinds_fall_back\<close>), but they are not all the paths: a load that
  succeeds with a single vertex, or with vertices that all coincide, passes
  the test \<^verbatim>\<open>raw && raw.length > 0\<close> and is normalised with a bounding box
  of extent zero. The scale is \<open>2.6 / 0\<close>, every coordinate becomes NaN, no
  warning is logged and the fallback is not used.
\<close>

theorem C6_degenerate_load_is_NaN:
  "useModelPositions (Some ''vertex.ply'') 15000 (rnd_fixed [])
      (Loaded (BufferGeometry (Some [Finite 1, Finite 2, Finite 3])))
     = \<lparr> positions_state = Some [NaN, NaN, NaN], warnings = [],
         loads = [(PLYLoader, ''/models/vertex.ply'')] \<rparr>
   \<and> useModelPositions (Some ''pair.obj'') 15000 (rnd_fixed [])
      (Loaded (Scene (Object3D
         (Some \<lparr> geometry = Some (Some [(Finite 1, Finite 2, Finite 3),
                                          (Finite 1, Finite 2, Finite 3)]),
                  matrixWorld = id \<rparr>) [])))
     = \<lparr> positions_state = Some [NaN, NaN, NaN, NaN, NaN, NaN], warnings = [],
         loads = [(OBJLoader, ''/models/pair.obj'')] \<rparr>"
proof -
  let ?geo = "BufferGeometry (Some [Finite 1, Finite 2, Finite 3])"
  let ?scene = "Scene (Object3D
         (Some \<lparr> geometry = Some (Some [(Finite 1, Finite 2, Finite 3),
                                          (Finite 1, Finite 2, Finite 3)]),
                  matrixWorld = id \<rparr>) [])"
  have l1: "loader_for (model_ext ''vertex.ply'') = Some PLYLoader"
    by code_simp
  have l2: "loader_for (model_ext ''pair.obj'') = Some OBJLoader"
    by code_simp
  have x1: "extractPositions ?geo = Some [Finite 1, Finite 2, Finite 3]"
    by simp
  have x2: "extractPositions ?scene
              = Some [Finite 1, Finite 2, Finite 3, Finite 1, Finite 2, Finite 3]"
    by simp
  have s1: "samplePositions [Finite 1, Finite 2, Finite 3] 15000 (rnd_fixed [])
              = [Finite 1, Finite 2, Finite 3]"
    by (simp add: samplePositions_def)
  have s2: "samplePositions [Finite 1, Finite 2, Finite 3, Finite 1, Finite 2, Finite 3]
              15000 (rnd_fixed [])
              = [Finite 1, Finite 2, Finite 3, Finite 1, Finite 2, Finite 3]"
    by (simp add: samplePositions_def)
  have n1: "normalizePositions [Finite 1, Finite 2, Finite 3] (13 / 10) = [NaN, NaN, NaN]"
    by code_simp
  have n2: "normalizePositions [Finite 1, Finite 2, Finite 3, Finite 1, Finite 2, Finite 3]
              (13 / 10) = [NaN, NaN, NaN, NaN, NaN, NaN]"
    by code_simp
  have p1: "''vertex.ply'' \<noteq> []" and p2: "''pair.obj'' \<noteq> []" by simp_all
  note t1 = failure_kinds_fall_back[OF p1, of 15000 "rnd_fixed []" _ PLYLoader ?geo
              "[Finite 1, Finite 2, Finite 3]"]
  note t2 = failure_kinds_fall_back[OF p2, of 15000 "rnd_fixed []" _ OBJLoader ?scene
              "[Finite 1, Finite 2, Finite 3, Finite 1, Finite 2, Finite 3]"]
  have ne1: "[Finite 1, Finite 2, Finite 3] \<noteq> []"
    and ne2: "[Finite 1, Finite 2, Finite 3, Finite 1, Finite 2, Finite 3] \<noteq> []"
    by simp_all
  from t1 l1 x1 ne1 have a: "useModelPositions (Some ''vertex.ply'') 15000 (rnd_fixed [])
      (Loaded ?geo)
     = \<lparr> positions_state =
           Some (normalizePositions
                  (samplePositions [Finite 1, Finite 2, Finite 3] 15000 (rnd_fixed []))
                  (13 / 10)),
         warnings = [], loads = [(PLYLoader, ''/models/'' @ ''vertex.ply'')] \<rparr>"
    by blast
  from t2 l2 x2 ne2 have b: "useModelPositions (Some ''pair.obj'') 15000 (rnd_fixed [])
      (Loaded ?scene)
     = \<lparr> positions_state =
           Some (normalizePositions
                  (samplePositions [Finite 1, Finite 2, Finite 3, Finite 1, Finite 2, Finite 3]
                     15000 (rnd_fixed []))
                  (13 / 10)),
         warnings = [], loads = [(OBJLoader, ''/models/'' @ ''pair.obj'')] \<rparr>"
    by blast
  from a b show ?thesis
    unfolding s1 s2 n1 n2 by simp
qed

section \<open>Normalisation: the code computes the bounding box\<close>

lemma f32_read_Finite:
  assumes "k < length ps"
  shows "ToNumber (f32_read (map Finite ps) (real k)) = Finite (ps ! k)"
  using assms by (simp add: f32_read_nat)

lemma point_loop_wf:
  assumes "length positions = n * 3"
  shows "point_loop positions = [0..<n]"
  by (simp add: point_loop_def assms)

lemma set_axis:
  assumes "length ps = n * 3"
  shows "set (axis ps c) = (\<lambda>i. ps ! (i * 3 + c)) ` {0..<n}"
  by (simp add: axis_def assms)

lemma Min_image_Suc:
  fixes X :: "nat \<Rightarrow> real"
  assumes "0 < k"
  shows "Min (X ` {0..<Suc k}) = min (Min (X ` {0..<k})) (X k)"
proof -
  have ne: "X ` {0..<k} \<noteq> {}" using assms by simp
  have "X ` {0..<Suc k} = insert (X k) (X ` {0..<k})"
    by (simp add: atLeastLessThanSuc)
  then show ?thesis using ne by (simp add: min.commute)
qed

lemma Max_image_Suc:
  fixes X :: "nat \<Rightarrow> real"
  assumes "0 < k"
  shows "Max (X ` {0..<Suc k}) = max (Max (X ` {0..<k})) (X k)"
proof -
  have ne: "X ` {0..<k} \<noteq> {}" using assms by simp
  have "X ` {0..<Suc k} = insert (X k) (X ` {0..<k})"
    by (simp add: atLeastLessThanSuc)
  then show ?thesis using ne by (simp add: max.commute)
qed

lemma bbox_step_Finite:
  assumes "i * 3 + 2 < length ps"
  shows "bbox_step (map Finite ps) i bb =
           \<lparr> minX = Math_min (minX bb) (Finite (ps ! (i * 3))),
             minY = Math_min (minY bb) (Finite (ps ! (i * 3 + 1))),
             minZ = Math_min (minZ bb) (Finite (ps ! (i * 3 + 2))),
             maxX = Math_max (maxX bb) (Finite (ps ! (i * 3))),
             maxY = Math_max (maxY bb) (Finite (ps ! (i * 3 + 1))),
             maxZ = Math_max (maxZ bb) (Finite (ps ! (i * 3 + 2))) \<rparr>"
proof -
  have "i * 3 < length ps" "i * 3 + 1 < length ps" using assms by simp_all
  then show ?thesis
    using assms unfolding bbox_step_def Let_def
    by (simp only: f32_read_Finite)
qed

lemma bbox_fold_Finite:
  assumes "length ps = n * 3" and "0 < k" and "k \<le> n"
  shows "fold (bbox_step (map Finite ps)) [0..<k] bbox_init =
           \<lparr> minX = Finite (Min ((\<lambda>i. ps ! (i * 3)) ` {0..<k})),
             minY = Finite (Min ((\<lambda>i. ps ! (i * 3 + 1)) ` {0..<k})),
             minZ = Finite (Min ((\<lambda>i. ps ! (i * 3 + 2)) ` {0..<k})),
             maxX = Finite (Max ((\<lambda>i. ps ! (i * 3)) ` {0..<k})),
             maxY = Finite (Max ((\<lambda>i. ps ! (i * 3 + 1)) ` {0..<k})),
             maxZ = Finite (Max ((\<lambda>i. ps ! (i * 3 + 2)) ` {0..<k})) \<rparr>"
  using assms(2,3)
proof (induction k)
  case 0
  then show ?case by simp
next
  case (Suc k)
  have in_range: "k * 3 + 2 < length ps" using Suc.prems assms(1) by simp
  show ?case
  proof (cases "k = 0")
    case True
    then show ?thesis
      using in_range by (simp add: bbox_step_Finite bbox_init_def)
  next
    case False
    then have k: "0 < k" "k \<le> n" using Suc.prems by simp_all
    have "fold (bbox_step (map Finite ps)) [0..<Suc k] bbox_init
            = bbox_step (map Finite ps) k (fold (bbox_step (map Finite ps)) [0..<k] bbox_init)"
      by simp
    then show ?thesis
      unfolding Suc.IH[OF k] bbox_step_Finite[OF in_range]
      by (simp add: Min_image_Suc[OF k(1)] Max_image_Suc[OF k(1)])
  qed
qed

lemma bounding_box_Finite:
  assumes "length ps = n * 3" and "0 < n"
  shows "bounding_box (map Finite ps) =
           \<lparr> minX = Finite (axis_lo ps 0), minY = Finite (axis_lo ps 1),
             minZ = Finite (axis_lo ps 2),
             maxX = Finite (axis_hi ps 0), maxY = Finite (axis_hi ps 1),
             maxZ = Finite (axis_hi ps 2) \<rparr>"
proof -
  have "bounding_box (map Finite ps) = fold (bbox_step (map Finite ps)) [0..<n] bbox_init"
    by (simp add: bounding_box_def point_loop_wf[of _ n] assms(1))
  then show ?thesis
    unfolding bbox_fold_Finite[OF assms(1) assms(2) order_refl]
    by (simp add: axis_lo_def axis_hi_def set_axis[OF assms(1)])
qed

section \<open>Normalisation: the code refines the specification\<close>

lemma triples_cong:
  assumes "\<And>i. i < n \<Longrightarrow> f i = g i"
  shows "triples f n = triples g n"
proof -
  have "map (\<lambda>i. case f i of (x, y, z) \<Rightarrow> [x, y, z]) [0..<n]
          = map (\<lambda>i. case g i of (x, y, z) \<Rightarrow> [x, y, z]) [0..<n]"
    by (rule map_cong) (simp_all add: assms)
  then show ?thesis by (simp only: triples_def)
qed

lemma map_triples:
  "map h (triples f n) = triples (\<lambda>i. case f i of (x, y, z) \<Rightarrow> (h x, h y, h z)) n"
  by (induction n) (simp_all add: triples_Suc split: prod.splits, simp add: triples_def)

lemma box_center_Finite: "box_center (Finite a) (Finite b) = Finite ((a + b) / 2)"
  by (simp add: box_center_def)

lemma normalizePositions_refines:
  assumes len: "length ps = n * 3" and n: "0 < n" and ext: "maxSpan ps \<noteq> 0"
  shows "normalizePositions (map Finite ps) targetRadius
           = map Finite (normalize_spec ps targetRadius)"
proof -
  let ?P = "map Finite ps"
  let ?s = "2 * targetRadius / maxSpan ps"
  let ?g = "\<lambda>i. (js_mul (js_sub (ToNumber (f32_read ?P (real (i * 3))))
                          (Finite (centre ps 0))) (Finite ?s),
                  js_mul (js_sub (ToNumber (f32_read ?P (real (i * 3 + 1))))
                          (Finite (centre ps 1))) (Finite ?s),
                  js_mul (js_sub (ToNumber (f32_read ?P (real (i * 3 + 2))))
                          (Finite (centre ps 2))) (Finite ?s))"
  let ?h = "\<lambda>i. ((ps ! (i * 3) - centre ps 0) * ?s,
                  (ps ! (i * 3 + 1) - centre ps 1) * ?s,
                  (ps ! (i * 3 + 2) - centre ps 2) * ?s)"
  note bb = bounding_box_Finite[OF len n]
  have me: "maxExtent (bounding_box ?P) = Finite (maxSpan ps)"
    by (simp add: bb maxExtent_def Math_max3_def js_sub_def maxSpan_def axis_span_def)
  have sc: "js_div (Finite (targetRadius * 2)) (maxExtent (bounding_box ?P)) = Finite ?s"
    using ext by (simp add: me mult.commute)
  have cs: "box_center (minX (bounding_box ?P)) (maxX (bounding_box ?P)) = Finite (centre ps 0)"
    "box_center (minY (bounding_box ?P)) (maxY (bounding_box ?P)) = Finite (centre ps 1)"
    "box_center (minZ (bounding_box ?P)) (maxZ (bounding_box ?P)) = Finite (centre ps 2)"
    by (simp_all add: bb box_center_Finite centre_def)
  have "normalizePositions ?P targetRadius
          = fold (\<lambda>i a. case ?g i of (x, y, z) \<Rightarrow> write3 a i x y z) [0..<n]
              (new_Float32Array (n * 3))"
    unfolding normalizePositions_def Let_def sc cs
    by (simp add: point_loop_wf[of _ n] len)
  also have "\<dots> = triples ?g n" by (rule fold_write3_new)
  also have "\<dots> = triples (\<lambda>i. case ?h i of (x, y, z) \<Rightarrow> (Finite x, Finite y, Finite z)) n"
  proof (rule triples_cong)
    fix i assume "i < n"
    then have "i * 3 < length ps" "i * 3 + 1 < length ps" "i * 3 + 2 < length ps"
      using len by simp_all
    then have r: "ToNumber (f32_read ?P (real (i * 3))) = Finite (ps ! (i * 3))"
      "ToNumber (f32_read ?P (real (i * 3 + 1))) = Finite (ps ! (i * 3 + 1))"
      "ToNumber (f32_read ?P (real (i * 3 + 2))) = Finite (ps ! (i * 3 + 2))"
      by (simp_all only: f32_read_Finite)
    show "?g i = (case ?h i of (x, y, z) \<Rightarrow> (Finite x, Finite y, Finite z))"
      unfolding r by (simp add: js_sub_def)
  qed
  also have "\<dots> = map Finite (triples ?h n)" by (simp only: map_triples)
  also have "triples ?h n = normalize_spec ps targetRadius"
    by (simp add: normalize_spec_def len)
  finally show ?thesis .
qed

lemma length_normalize_spec:
  assumes "length ps = n * 3"
  shows "length (normalize_spec ps targetRadius) = n * 3"
  by (simp add: normalize_spec_def assms)

lemma point_at_normalize_spec:
  assumes "length ps = n * 3" and "i < n"
  shows "point_at (normalize_spec ps targetRadius) i =
           ((ps ! (i * 3) - centre ps 0) * (2 * targetRadius / maxSpan ps),
            (ps ! (i * 3 + 1) - centre ps 1) * (2 * targetRadius / maxSpan ps),
            (ps ! (i * 3 + 2) - centre ps 2) * (2 * targetRadius / maxSpan ps))"
  using assms by (simp add: normalize_spec_def point_at_triples)

lemma nth_normalize_spec:
  assumes len: "length ps = n * 3" and i: "i < n" and c: "c < 3"
  shows "normalize_spec ps targetRadius ! (i * 3 + c)
           = (ps ! (i * 3 + c) - centre ps c) * (2 * targetRadius / maxSpan ps)"
proof -
  from c consider "c = 0" | "c = 1" | "c = 2" by linarith
  then show ?thesis
    using point_at_normalize_spec[OF len i, of targetRadius]
    by cases (simp_all add: point_at_def)
qed

lemma axis_normalize_spec:
  assumes len: "length ps = n * 3" and c: "c < 3"
  shows "axis (normalize_spec ps targetRadius) c
           = map (\<lambda>v. (v - centre ps c) * (2 * targetRadius / maxSpan ps)) (axis ps c)"
  unfolding axis_def length_normalize_spec[OF len] len
  by (simp add: nth_normalize_spec[OF len _ c])

section \<open>Normalisation: the box of the result\<close>

lemma axis_nonempty:
  assumes "length ps = n * 3" and "0 < n"
  shows "set (axis ps c) \<noteq> {}"
  using assms by (simp add: axis_def)

lemma axis_member:
  assumes "length ps = n * 3" and "i < n"
  shows "ps ! (i * 3 + c) \<in> set (axis ps c)"
  using assms by (simp add: set_axis[of ps n])

lemma axis_lo_le:
  assumes "length ps = n * 3" and "i < n"
  shows "axis_lo ps c \<le> ps ! (i * 3 + c)"
  unfolding axis_lo_def using axis_member[OF assms] by (intro Min_le) simp_all

lemma axis_hi_ge:
  assumes "length ps = n * 3" and "i < n"
  shows "ps ! (i * 3 + c) \<le> axis_hi ps c"
  unfolding axis_hi_def using axis_member[OF assms] by (intro Max_ge) simp_all

lemma span_nonneg:
  assumes "length ps = n * 3" and "0 < n"
  shows "0 \<le> axis_span ps c"
  using axis_lo_le[OF assms, of c] axis_hi_ge[OF assms, of c] by (simp add: axis_span_def)

lemma span_le_maxSpan:
  assumes "c < 3"
  shows "axis_span ps c \<le> maxSpan ps"
proof -
  from assms consider "c = 0" | "c = 1" | "c = 2" by linarith
  then show ?thesis by cases (simp_all add: maxSpan_def)
qed

lemma mono_shift_scale:
  fixes s :: real
  assumes "0 \<le> s"
  shows "mono (\<lambda>v. (v - a) * s)"
  by (rule monoI) (simp add: assms mult_right_mono)

lemma axis_lo_normalize_spec:
  assumes len: "length ps = n * 3" and n: "0 < n" and c: "c < 3"
    and s: "0 \<le> 2 * targetRadius / maxSpan ps"
  shows "axis_lo (normalize_spec ps targetRadius) c
           = (axis_lo ps c - centre ps c) * (2 * targetRadius / maxSpan ps)"
  unfolding axis_lo_def axis_normalize_spec[OF len c] set_map
  by (rule mono_Min_commute[symmetric, OF mono_shift_scale[OF s] _ axis_nonempty[OF len n]]) simp

lemma axis_hi_normalize_spec:
  assumes len: "length ps = n * 3" and n: "0 < n" and c: "c < 3"
    and s: "0 \<le> 2 * targetRadius / maxSpan ps"
  shows "axis_hi (normalize_spec ps targetRadius) c
           = (axis_hi ps c - centre ps c) * (2 * targetRadius / maxSpan ps)"
  unfolding axis_hi_def axis_normalize_spec[OF len c] set_map
  by (rule mono_Max_commute[symmetric, OF mono_shift_scale[OF s] _ axis_nonempty[OF len n]]) simp

lemma centre_normalize_spec:
  assumes len: "length ps = n * 3" and n: "0 < n" and c: "c < 3"
    and s: "0 \<le> 2 * targetRadius / maxSpan ps"
  shows "centre (normalize_spec ps targetRadius) c = 0"
proof -
  define k where "k = 2 * targetRadius / maxSpan ps"
  have lo: "axis_lo (normalize_spec ps targetRadius) c = (axis_lo ps c - centre ps c) * k"
    and hi: "axis_hi (normalize_spec ps targetRadius) c = (axis_hi ps c - centre ps c) * k"
    by (simp_all only: k_def axis_lo_normalize_spec[OF len n c s]
          axis_hi_normalize_spec[OF len n c s])
  have "centre (normalize_spec ps targetRadius) c
          = ((axis_lo ps c - centre ps c) * k + (axis_hi ps c - centre ps c) * k) / 2"
    by (simp only: centre_def[of "normalize_spec ps targetRadius"] lo hi)
  also have "\<dots> = ((axis_lo ps c + axis_hi ps c) - 2 * centre ps c) * k / 2"
    by (simp add: algebra_simps)
  also have "(axis_lo ps c + axis_hi ps c) - 2 * centre ps c = 0"
    by (simp add: centre_def)
  finally show ?thesis by simp
qed

lemma span_normalize_spec:
  assumes len: "length ps = n * 3" and n: "0 < n" and c: "c < 3"
    and s: "0 \<le> 2 * targetRadius / maxSpan ps"
  shows "axis_span (normalize_spec ps targetRadius) c
           = axis_span ps c * (2 * targetRadius / maxSpan ps)"
proof -
  define k where "k = 2 * targetRadius / maxSpan ps"
  have lo: "axis_lo (normalize_spec ps targetRadius) c = (axis_lo ps c - centre ps c) * k"
    and hi: "axis_hi (normalize_spec ps targetRadius) c = (axis_hi ps c - centre ps c) * k"
    by (simp_all only: k_def axis_lo_normalize_spec[OF len n c s]
          axis_hi_normalize_spec[OF len n c s])
  have "axis_span (normalize_spec ps targetRadius) c
          = (axis_hi ps c - centre ps c) * k - (axis_lo ps c - centre ps c) * k"
    by (simp only: axis_span_def[of "normalize_spec ps targetRadius"] lo hi)
  also have "\<dots> = axis_span ps c * k"
    by (simp add: axis_span_def algebra_simps)
  finally show ?thesis by (simp only: k_def)
qed

lemma maxSpan_normalize_spec:
  assumes len: "length ps = n * 3" and n: "0 < n"
    and ext: "0 < maxSpan ps" and r: "0 \<le> targetRadius"
  shows "maxSpan (normalize_spec ps targetRadius) = 2 * targetRadius"
proof -
  define k where "k = 2 * targetRadius / maxSpan ps"
  have s: "0 \<le> 2 * targetRadius / maxSpan ps" using ext r by simp
  then have k: "0 \<le> k" by (simp only: k_def)
  have sp: "axis_span (normalize_spec ps targetRadius) c = axis_span ps c * k" if "c < 3" for c
    using span_normalize_spec[OF len n that s] by (simp only: k_def)
  have "maxSpan (normalize_spec ps targetRadius)
          = max (max (axis_span ps 0 * k) (axis_span ps 1 * k)) (axis_span ps 2 * k)"
    by (simp add: maxSpan_def[of "normalize_spec ps targetRadius"] sp)
  also have "\<dots> = maxSpan ps * k"
    using k by (simp add: maxSpan_def max_mult_distrib_right)
  also have "\<dots> = 2 * targetRadius" using ext by (simp add: k_def)
  finally show ?thesis .
qed

lemma normalize_spec_coordinate_bound:
  assumes len: "length ps = n * 3" and i: "i < n" and c: "c < 3"
    and ext: "0 < maxSpan ps" and r: "0 \<le> targetRadius"
  shows "\<bar>normalize_spec ps targetRadius ! (i * 3 + c)\<bar> \<le> targetRadius"
proof -
  define k where "k = 2 * targetRadius / maxSpan ps"
  let ?p = "ps ! (i * 3 + c)"
  have k: "0 \<le> k" using ext r by (simp add: k_def)
  have lo: "axis_lo ps c \<le> ?p" by (rule axis_lo_le[OF len i])
  have hi: "?p \<le> axis_hi ps c" by (rule axis_hi_ge[OF len i])
  have "\<bar>?p - centre ps c\<bar> \<le> axis_span ps c / 2"
    using lo hi by (simp add: centre_def axis_span_def abs_le_iff field_simps)
  also have "\<dots> \<le> maxSpan ps / 2" using span_le_maxSpan[OF c, of ps] by simp
  finally have "\<bar>?p - centre ps c\<bar> * k \<le> maxSpan ps / 2 * k"
    using k by (rule mult_right_mono)
  also have "maxSpan ps / 2 * k = targetRadius" using ext by (simp add: k_def)
  finally have "\<bar>(?p - centre ps c) * k\<bar> \<le> targetRadius"
    using k by (simp add: abs_mult)
  then show ?thesis by (simp only: nth_normalize_spec[OF len i c] k_def)
qed

lemma radius_in_cube:
  assumes "\<bar>x\<bar> \<le> r" and "\<bar>y\<bar> \<le> r" and "\<bar>z\<bar> \<le> r"
  shows "radius (x, y, z) \<le> sqrt 3 * r"
proof -
  have r0: "0 \<le> r" using assms(1) by simp
  have "x\<^sup>2 \<le> r\<^sup>2" "y\<^sup>2 \<le> r\<^sup>2" "z\<^sup>2 \<le> r\<^sup>2"
    using assms by (simp_all add: abs_le_square_iff[symmetric] r0)
  then have "x\<^sup>2 + y\<^sup>2 + z\<^sup>2 \<le> 3 * r\<^sup>2" by simp
  then have "sqrt (x\<^sup>2 + y\<^sup>2 + z\<^sup>2) \<le> sqrt (3 * r\<^sup>2)" by (simp only: real_sqrt_le_iff)
  also have "\<dots> = sqrt 3 * r" using r0 by (simp add: real_sqrt_mult)
  finally show ?thesis by (simp add: radius_def)
qed

section \<open>Normalisation: the claims\<close>

lemma bounding_box_normalized:
  assumes len: "length ps = n * 3" and n: "0 < n" and ext: "0 < maxSpan ps"
  shows "bounding_box (normalizePositions (map Finite ps) targetRadius) =
           \<lparr> minX = Finite (axis_lo (normalize_spec ps targetRadius) 0),
             minY = Finite (axis_lo (normalize_spec ps targetRadius) 1),
             minZ = Finite (axis_lo (normalize_spec ps targetRadius) 2),
             maxX = Finite (axis_hi (normalize_spec ps targetRadius) 0),
             maxY = Finite (axis_hi (normalize_spec ps targetRadius) 1),
             maxZ = Finite (axis_hi (normalize_spec ps targetRadius) 2) \<rparr>"
proof -
  have ne: "maxSpan ps \<noteq> 0" using ext by simp
  show ?thesis
    unfolding normalizePositions_refines[OF len n ne]
    by (rule bounding_box_Finite[OF length_normalize_spec[OF len] n])
qed

lemma box_center_normalized:
  assumes len: "length ps = n * 3" and n: "0 < n" and ext: "0 < maxSpan ps"
    and r: "0 \<le> targetRadius"
  shows "box_center (minX (bounding_box (normalizePositions (map Finite ps) targetRadius)))
                    (maxX (bounding_box (normalizePositions (map Finite ps) targetRadius)))
           = Finite 0"
    and "box_center (minY (bounding_box (normalizePositions (map Finite ps) targetRadius)))
                    (maxY (bounding_box (normalizePositions (map Finite ps) targetRadius)))
           = Finite 0"
    and "box_center (minZ (bounding_box (normalizePositions (map Finite ps) targetRadius)))
                    (maxZ (bounding_box (normalizePositions (map Finite ps) targetRadius)))
           = Finite 0"
proof -
  have s: "0 \<le> 2 * targetRadius / maxSpan ps" using ext r by simp
  have c: "centre (normalize_spec ps targetRadius) 0 = 0"
    "centre (normalize_spec ps targetRadius) 1 = 0"
    "centre (normalize_spec ps targetRadius) 2 = 0"
    by (simp_all add: centre_normalize_spec[OF len n _ s])
  note bb = bounding_box_normalized[OF len n ext, of targetRadius]
  show "box_center (minX (bounding_box (normalizePositions (map Finite ps) targetRadius)))
                    (maxX (bounding_box (normalizePositions (map Finite ps) targetRadius)))
           = Finite 0"
    using c(1) by (simp add: bb box_center_Finite centre_def)
  show "box_center (minY (bounding_box (normalizePositions (map Finite ps) targetRadius)))
                    (maxY (bounding_box (normalizePositions (map Finite ps) targetRadius)))
           = Finite 0"
    using c(2) by (simp add: bb box_center_Finite centre_def)
  show "box_center (minZ (bounding_box (normalizePositions (map Finite ps) targetRadius)))
                    (maxZ (bounding_box (normalizePositions (map Finite ps) targetRadius)))
           = Finite 0"
    using c(3) by (simp add: bb box_center_Finite centre_def)
qed

lemma maxExtent_normalized:
  assumes len: "length ps = n * 3" and n: "0 < n" and ext: "0 < maxSpan ps"
    and r: "0 \<le> targetRadius"
  shows "maxExtent (bounding_box (normalizePositions (map Finite ps) targetRadius))
           = Finite (2 * targetRadius)"
proof -
  note bb = bounding_box_normalized[OF len n ext, of targetRadius]
  have "maxExtent (bounding_box (normalizePositions (map Finite ps) targetRadius))
          = Finite (maxSpan (normalize_spec ps targetRadius))"
    by (simp add: bb maxExtent_def Math_max3_def js_sub_def maxSpan_def axis_span_def)
  then show ?thesis by (simp only: maxSpan_normalize_spec[OF len n ext r])
qed

lemma radius_normalize_spec:
  assumes len: "length ps = n * 3" and i: "i < n"
    and ext: "0 < maxSpan ps" and r: "0 \<le> targetRadius"
  shows "radius (point_at (normalize_spec ps targetRadius) i) \<le> sqrt 3 * targetRadius"
proof -
  have "\<bar>normalize_spec ps targetRadius ! (i * 3 + 0)\<bar> \<le> targetRadius"
    "\<bar>normalize_spec ps targetRadius ! (i * 3 + 1)\<bar> \<le> targetRadius"
    "\<bar>normalize_spec ps targetRadius ! (i * 3 + 2)\<bar> \<le> targetRadius"
    by (rule normalize_spec_coordinate_bound[OF len i _ ext r], simp)+
  then show ?thesis
    unfolding point_at_def by (intro radius_in_cube) simp_all
qed

lemma normalize_spec_fixed:
  assumes len: "length ps = n * 3" and n: "0 < n" and ext: "0 < maxSpan ps"
    and r: "0 < targetRadius"
  shows "normalize_spec (normalize_spec ps targetRadius) targetRadius
           = normalize_spec ps targetRadius"
proof -
  let ?qs = "normalize_spec ps targetRadius"
  let ?h = "\<lambda>i. ((ps ! (i * 3) - centre ps 0) * (2 * targetRadius / maxSpan ps),
                  (ps ! (i * 3 + 1) - centre ps 1) * (2 * targetRadius / maxSpan ps),
                  (ps ! (i * 3 + 2) - centre ps 2) * (2 * targetRadius / maxSpan ps))"
  have r0: "0 \<le> targetRadius" using r by simp
  have s: "0 \<le> 2 * targetRadius / maxSpan ps" using ext r by simp
  have lq: "length ?qs = n * 3" by (rule length_normalize_spec[OF len])
  have ms: "maxSpan ?qs = 2 * targetRadius" by (rule maxSpan_normalize_spec[OF len n ext r0])
  have one: "2 * targetRadius / maxSpan ?qs = 1" using r by (simp add: ms)
  have c: "centre ?qs 0 = 0" "centre ?qs 1 = 0" "centre ?qs 2 = 0"
    by (simp_all add: centre_normalize_spec[OF len n _ s])
  have "normalize_spec ?qs targetRadius
          = triples (\<lambda>i. ((?qs ! (i * 3) - centre ?qs 0) * (2 * targetRadius / maxSpan ?qs),
                          (?qs ! (i * 3 + 1) - centre ?qs 1) * (2 * targetRadius / maxSpan ?qs),
                          (?qs ! (i * 3 + 2) - centre ?qs 2) * (2 * targetRadius / maxSpan ?qs))) n"
    by (simp add: normalize_spec_def[of ?qs] lq)
  also have "\<dots> = triples (point_at ?qs) n"
    unfolding one c by (rule triples_cong) (simp add: point_at_def)
  also have "\<dots> = triples ?h n"
    by (rule triples_cong) (simp only: point_at_normalize_spec[OF len])
  also have "\<dots> = ?qs" by (simp add: normalize_spec_def len)
  finally show ?thesis .
qed

lemma normalizePositions_twice:
  assumes len: "length ps = n * 3" and n: "0 < n" and ext: "0 < maxSpan ps"
    and r: "0 < targetRadius"
  shows "normalizePositions (normalizePositions (map Finite ps) targetRadius) targetRadius
           = normalizePositions (map Finite ps) targetRadius"
proof -
  have ne: "maxSpan ps \<noteq> 0" using ext by simp
  have r0: "0 \<le> targetRadius" using r by simp
  have ne': "maxSpan (normalize_spec ps targetRadius) \<noteq> 0"
    using r by (simp add: maxSpan_normalize_spec[OF len n ext r0])
  show ?thesis
    unfolding normalizePositions_refines[OF len n ne]
      normalizePositions_refines[OF length_normalize_spec[OF len] n ne']
      normalize_spec_fixed[OF len n ext r] ..
qed

text \<open>
  The claim C2 as it is worded fails in two ways. The scale is taken from the
  bounding box, so the result fits the cube of half-side \<open>targetRadius\<close>, not
  the sphere: the points (0,0,0) and (1,1,1) come out at distance
  \<open>\<surd>3 * 1.3\<close> from the origin for \<open>targetRadius = 1.3\<close>. And a non-empty point
  set of extent zero (a single point) comes out as NaN, the scale being
  \<open>2.6 / 0\<close>.
\<close>

theorem C2_normalize_counterexample:
  "normalizePositions (map Finite [0, 0, 0, 1, 1, 1]) (13 / 10)
     = map Finite [- (13 / 10), - (13 / 10), - (13 / 10), 13 / 10, 13 / 10, 13 / 10]
   \<and> 13 / 10 < radius (13 / 10, 13 / 10, 13 / 10)
   \<and> normalizePositions (map Finite [1, 2, 3]) (13 / 10) = [NaN, NaN, NaN]"
proof -
  have a: "normalizePositions (map Finite [0, 0, 0, 1, 1, 1]) (13 / 10)
     = map Finite [- (13 / 10), - (13 / 10), - (13 / 10), 13 / 10, 13 / 10, 13 / 10]"
    by code_simp
  have "(13 / 10 :: real)\<^sup>2 < (13 / 10)\<^sup>2 + (13 / 10)\<^sup>2 + (13 / 10)\<^sup>2"
    by (simp add: power2_eq_square)
  then have "13 / 10 < sqrt ((13 / 10)\<^sup>2 + (13 / 10)\<^sup>2 + (13 / 10)\<^sup>2)"
    by (rule real_less_rsqrt)
  then have b: "13 / 10 < radius (13 / 10, 13 / 10, 13 / 10)"
    by (simp only: radius_def prod.case)
  have c: "normalizePositions (map Finite [1, 2, 3]) (13 / 10) = [NaN, NaN, NaN]"
    by code_simp
  from a b c show ?thesis by blast
qed

text \<open>
  C2 (amended). For a point set of finite coordinates whose bounding box has a
  positive largest span, and \<open>targetRadius \<ge> 0\<close>, \<open>normalizePositions\<close> subtracts
  the centre of the axis-aligned bounding box and multiplies every coordinate
  by the single scalar \<open>(2 * targetRadius) / maxExtent\<close>, \<open>maxExtent\<close> being the
  largest of the three spans of the box. Every coordinate of the result lies in
  \<open>[- targetRadius, targetRadius]\<close>, so the result fits the cube of half-side
  \<open>targetRadius\<close> and the sphere of radius \<open>\<surd>3 * targetRadius\<close> about the origin,
  and the bounding box of the result, computed as the code computes it, has
  its centre at the origin.
\<close>

theorem C2_normalize:
  assumes len: "length ps = n * 3" and n: "0 < n"
    and ext: "0 < maxSpan ps" and r: "0 \<le> targetRadius"
  shows "normalizePositions (map Finite ps) targetRadius
           = map Finite (normalize_spec ps targetRadius)
       \<and> length (normalize_spec ps targetRadius) = n * 3
       \<and> maxExtent (bounding_box (map Finite ps)) = Finite (maxSpan ps)
       \<and> (\<forall>i<n. \<forall>c<3.
             normalize_spec ps targetRadius ! (i * 3 + c)
               = (ps ! (i * 3 + c) - centre ps c) * (2 * targetRadius / maxSpan ps)
           \<and> \<bar>normalize_spec ps targetRadius ! (i * 3 + c)\<bar> \<le> targetRadius)
       \<and> (\<forall>i<n. radius (point_at (normalize_spec ps targetRadius) i) \<le> sqrt 3 * targetRadius)
       \<and> box_center (minX (bounding_box (normalizePositions (map Finite ps) targetRadius)))
                     (maxX (bounding_box (normalizePositions (map Finite ps) targetRadius)))
           = Finite 0
       \<and> box_center (minY (bounding_box (normalizePositions (map Finite ps) targetRadius)))
                     (maxY (bounding_box (normalizePositions (map Finite ps) targetRadius)))
           = Finite 0
       \<and> box_center (minZ (bounding_box (normalizePositions (map Finite ps) targetRadius)))
                     (maxZ (bounding_box (normalizePositions (map Finite ps) targetRadius)))
           = Finite 0"
proof -
  have ne: "maxSpan ps \<noteq> 0" using ext by simp
  have me: "maxExtent (bounding_box (map Finite ps)) = Finite (maxSpan ps)"
    by (simp add: bounding_box_Finite[OF len n] maxExtent_def Math_max3_def js_sub_def
          maxSpan_def axis_span_def)
  have co: "\<forall>i<n. \<forall>c<3.
             normalize_spec ps targetRadius ! (i * 3 + c)
               = (ps ! (i * 3 + c) - centre ps c) * (2 * targetRadius / maxSpan ps)
           \<and> \<bar>normalize_spec ps targetRadius ! (i * 3 + c)\<bar> \<le> targetRadius"
    using nth_normalize_spec[OF len] normalize_spec_coordinate_bound[OF len _ _ ext r]
    by blast
  have ra: "\<forall>i<n. radius (point_at (normalize_spec ps targetRadius) i) \<le> sqrt 3 * targetRadius"
    using radius_normalize_spec[OF len _ ext r] by blast
  from normalizePositions_refines[OF len n ne, of targetRadius]
    length_normalize_spec[OF len, of targetRadius] me co ra
    box_center_normalized[OF len n ext r]
  show ?thesis by blast
qed

lemma example_maxSpan: "maxSpan [0, 0, 0, 1, 2, 4] = 4"
  by code_simp

theorem C2_normalize_witness:
  "normalizePositions (map Finite [0, 0, 0, 1, 2, 4]) (13 / 10)
     = map Finite (normalize_spec [0, 0, 0, 1, 2, 4] (13 / 10))
   \<and> maxExtent (bounding_box (map Finite [0, 0, 0, 1, 2, 4])) = Finite 4
   \<and> box_center
        (minX (bounding_box (normalizePositions (map Finite [0, 0, 0, 1, 2, 4]) (13 / 10))))
        (maxX (bounding_box (normalizePositions (map Finite [0, 0, 0, 1, 2, 4]) (13 / 10))))
      = Finite 0"
proof -
  have l: "length [0, 0, 0, 1, 2, 4 :: real] = 2 * 3" by simp
  have n: "(0::nat) < 2" by simp
  have e: "0 < maxSpan [0, 0, 0, 1, 2, 4]" by (simp add: example_maxSpan)
  have r: "(0::real) \<le> 13 / 10" by simp
  note t = C2_normalize[OF l n e r]
  from t have a: "normalizePositions (map Finite [0, 0, 0, 1, 2, 4]) (13 / 10)
     = map Finite (normalize_spec [0, 0, 0, 1, 2, 4] (13 / 10))"
    by blast
  from t have b: "maxExtent (bounding_box (map Finite [0, 0, 0, 1, 2, 4]))
     = Finite (maxSpan [0, 0, 0, 1, 2, 4])"
    by blast
  from t have c: "box_center
        (minX (bounding_box (normalizePositions (map Finite [0, 0, 0, 1, 2, 4]) (13 / 10))))
        (maxX (bounding_box (normalizePositions (map Finite [0, 0, 0, 1, 2, 4]) (13 / 10))))
      = Finite 0"
    by blast
  from a b[unfolded example_maxSpan] c show ?thesis by blast
qed

text \<open>
  C9. For a point set of finite coordinates whose bounding box has a positive
  largest span, and a positive \<open>targetRadius\<close>, normalising twice gives the same
  array as normalising once (in exact arithmetic): after one pass the largest
  span of the box is \<open>2 * targetRadius\<close> and the box centre is the origin, so the
  second pass subtracts zero and multiplies by one.
\<close>

theorem C9_normalize_idempotent:
  assumes len: "length ps = n * 3" and n: "0 < n"
    and ext: "0 < maxSpan ps" and r: "0 < targetRadius"
  shows "normalizePositions (normalizePositions (map Finite ps) targetRadius) targetRadius
           = normalizePositions (map Finite ps) targetRadius
       \<and> maxExtent (bounding_box (normalizePositions (map Finite ps) targetRadius))
           = Finite (2 * targetRadius)
       \<and> box_center (minX (bounding_box (normalizePositions (map Finite ps) targetRadius)))
                     (maxX (bounding_box (normalizePositions (map Finite ps) targetRadius)))
           = Finite 0
       \<and> box_center (minY (bounding_box (normalizePositions (map Finite ps) targetRadius)))
                     (maxY (bounding_box (normalizePositions (map Finite ps) targetRadius)))
           = Finite 0
       \<and> box_center (minZ (bounding_box (normalizePositions (map Finite ps) targetRadius)))
                     (maxZ (bounding_box (normalizePositions (map Finite ps) targetRadius)))
           = Finite 0
       \<and> js_div (Finite (targetRadius * 2))
            (maxExtent (bounding_box (normalizePositions (map Finite ps) targetRadius)))
           = Finite 1"
proof -
  have r0: "0 \<le> targetRadius" using r by simp
  note me = maxExtent_normalized[OF len n ext r0]
  have one: "js_div (Finite (targetRadius * 2))
            (maxExtent (bounding_box (normalizePositions (map Finite ps) targetRadius)))
           = Finite 1"
    using r by (simp add: me)
  from normalizePositions_twice[OF len n ext r] me box_center_normalized[OF len n ext r0] one
  show ?thesis by blast
qed

theorem C9_normalize_idempotent_witness:
  "normalizePositions (normalizePositions (map Finite [0, 0, 0, 1, 2, 4]) (13 / 10)) (13 / 10)
     = normalizePositions (map Finite [0, 0, 0, 1, 2, 4]) (13 / 10)
   \<and> maxExtent (bounding_box (normalizePositions (map Finite [0, 0, 0, 1, 2, 4]) (13 / 10)))
     = Finite (2 * (13 / 10))"
proof -
  have l: "length [0, 0, 0, 1, 2, 4 :: real] = 2 * 3" by simp
  have n: "(0::nat) < 2" by simp
  have e: "0 < maxSpan [0, 0, 0, 1, 2, 4]" by (simp add: example_maxSpan)
  have r: "(0::real) < 13 / 10" by simp
  from C9_normalize_idempotent[OF l n e r] show ?thesis by blast
qed

end
